theory Spec2Isabelle
  imports Main "HOL-Library.Multiset" "HOL-Library.Product_Lexorder"
begin

section \<open>JavaScript values\<close>

text \<open>
  The handlers of \<^verbatim>\<open>src/server.js\<close> read fields of a parsed JSON body and test them
  with JavaScript truthiness, so a body is a JavaScript value. Numbers are the integers
  (ids and counters are the only numbers the handlers compute with); a string is a list of
  code units below 256; the fields of an object are an association list with distinct keys,
  as \<^verbatim>\<open>JSON.parse\<close> produces them.
\<close>

datatype jsvalue =
    JUndefined
  | JNull
  | JBool bool
  | JNum int
  | JStr string
  | JObj "(string \<times> jsvalue) list"
  | JArr "jsvalue list"

type_synonym jsobject = "(string \<times> jsvalue) list"

text \<open>\<^verbatim>\<open>!v\<close> is \<open>\<not> truthy v\<close>.\<close>

fun truthy :: "jsvalue \<Rightarrow> bool" where
  "truthy JUndefined = False"
| "truthy JNull = False"
| "truthy (JBool b) = b"
| "truthy (JNum n) = (n \<noteq> 0)"
| "truthy (JStr s) = (s \<noteq> [])"
| "truthy (JObj fs) = True"
| "truthy (JArr xs) = True"

text \<open>\<^verbatim>\<open>v !== undefined && v !== null\<close> is \<open>\<not> nullish v\<close>.\<close>

fun nullish :: "jsvalue \<Rightarrow> bool" where
  "nullish JUndefined = True"
| "nullish JNull = True"
| "nullish v = False"

text \<open>
  Reading a named property, as the destructuring \<^verbatim>\<open>const { title } = req.body\<close> does once
  the body is neither undefined nor null. The handlers only read names that no array, string,
  number or boolean has, so those give undefined.
\<close>

fun get_field :: "jsvalue \<Rightarrow> string \<Rightarrow> jsvalue" where
  "get_field (JObj fs) k = (case map_of fs k of Some v \<Rightarrow> v | None \<Rightarrow> JUndefined)"
| "get_field v k = JUndefined"

text \<open>\<^verbatim>\<open>Object.keys(v).length\<close> for a value that is neither undefined nor null.\<close>

fun object_keys_length :: "jsvalue \<Rightarrow> nat" where
  "object_keys_length (JObj fs) = length fs"
| "object_keys_length (JArr xs) = length xs"
| "object_keys_length (JStr s) = length s"
| "object_keys_length v = 0"

text \<open>
  \<^verbatim>\<open>{ ...rest, k: v }\<close>: the property keeps its place when \<open>rest\<close> already has it and is
  added at the end otherwise.
\<close>

fun obj_set :: "jsobject \<Rightarrow> string \<Rightarrow> jsvalue \<Rightarrow> jsobject" where
  "obj_set [] k v = [(k, v)]"
| "obj_set ((k', v') # fs) k v =
     (if k' = k then (k, v) # fs else (k', v') # obj_set fs k v)"

subsection \<open>Strings: \<^verbatim>\<open>trim\<close>, \<^verbatim>\<open>split\<close>, \<^verbatim>\<open>parseInt\<close>\<close>

text \<open>White space and line terminators of ECMAScript among the code units below 256.\<close>

definition is_ws :: "char \<Rightarrow> bool" where
  "is_ws c = (of_char c \<in> {9, 10, 11, 12, 13, 32, 160 :: nat})"

definition js_trim :: "string \<Rightarrow> string" where
  "js_trim s = rev (dropWhile is_ws (rev (dropWhile is_ws s)))"

text \<open>\<^verbatim>\<open>s.split(' ')\<close>: the pieces between single spaces; never the empty array.\<close>

fun split_space :: "string \<Rightarrow> string list" where
  "split_space [] = [[]]"
| "split_space (c # cs) =
     (if c = CHR '' '' then [] # split_space cs
      else (case split_space cs of [] \<Rightarrow> [[c]] | w # ws \<Rightarrow> (c # w) # ws))"

definition digit_of :: "char \<Rightarrow> nat option" where
  "digit_of c =
     (let n = (of_char c :: nat) in
      if 48 \<le> n \<and> n \<le> 57 then Some (n - 48)
      else if 97 \<le> n \<and> n \<le> 122 then Some (n - 87)
      else if 65 \<le> n \<and> n \<le> 90 then Some (n - 55)
      else None)"

definition is_digit :: "nat \<Rightarrow> char \<Rightarrow> bool" where
  "is_digit radix c = (case digit_of c of Some d \<Rightarrow> d < radix | None \<Rightarrow> False)"

definition digits_value :: "nat \<Rightarrow> string \<Rightarrow> nat" where
  "digits_value radix ds = foldl (\<lambda>a c. a * radix + the (digit_of c)) 0 ds"

text \<open>
  \<^verbatim>\<open>parseInt(s)\<close> with no radix: leading white space is skipped, then an optional sign, then
  an optional \<^verbatim>\<open>0x\<close> that switches to radix 16, then the longest run of digits; what follows
  the digits is ignored. \<open>None\<close> is \<^verbatim>\<open>NaN\<close>. The value is the exact integer; a
  JavaScript number rounds it from \<open>2\<^sup>5\<^sup>3\<close> on.
\<close>

definition parseInt :: "string \<Rightarrow> int option" where
  "parseInt s =
     (let s1 = dropWhile is_ws s;
          neg = (case s1 of [] \<Rightarrow> False | c # r \<Rightarrow> c = CHR ''-'');
          s2 = (case s1 of [] \<Rightarrow> [] | c # r \<Rightarrow> if c = CHR ''-'' \<or> c = CHR ''+'' then r else s1);
          hex = (case s2 of a # b # r \<Rightarrow> a = CHR ''0'' \<and> (b = CHR ''x'' \<or> b = CHR ''X'') | _ \<Rightarrow> False);
          radix = (if hex then 16 else 10);
          s3 = (if hex then drop 2 s2 else s2);
          ds = takeWhile (is_digit radix) s3
      in if ds = [] then None
         else Some ((if neg then - 1 else 1) * int (digits_value radix ds)))"

section \<open>The store\<close>

text \<open>
  Modelled from the spec: the Prisma schema is not among the sources. The spec's data model
  gives a user an integer id, a unique username, a unique email and a password hash, and a
  task an integer id, a title, a boolean completion flag and \<open>authorId\<close>, a foreign key to
  the user's id; \<^verbatim>\<open>src/server.js\<close> names the completion column \<open>isDone\<close> and the foreign key
  \<open>authorId\<close>. Ids are auto-incremented, so each table carries its next id. An id is any
  integer here: the range Prisma allows an \<^verbatim>\<open>Int\<close> argument is not modelled.
\<close>

record user =
  user_id :: int
  username :: string
  email :: string
  passwordHash :: string

record task =
  task_id :: int
  title :: string
  isDone :: bool
  authorId :: int

record db =
  users :: "user list"
  tasks :: "task list"
  user_seq :: int
  task_seq :: int

text \<open>The object Prisma hands to the handler for a task row.\<close>

definition task_row :: "task \<Rightarrow> jsobject" where
  "task_row t =
     [(''id'', JNum (task_id t)), (''title'', JStr (title t)),
      (''isDone'', JBool (isDone t)), (''authorId'', JNum (authorId t))]"

text \<open>
  \<^verbatim>\<open>prisma.user.findFirst({ where: { OR: [{ username }, { email }] } })\<close>, each condition
  as the predicate on the column that Prisma reads it as.
\<close>

definition user_findFirst :: "db \<Rightarrow> (string \<Rightarrow> bool) \<Rightarrow> (string \<Rightarrow> bool) \<Rightarrow> user option" where
  "user_findFirst s P Q = find (\<lambda>x. P (username x) \<or> Q (email x)) (users s)"

text \<open>\<^verbatim>\<open>prisma.user.findUnique({ where: { email } })\<close>\<close>

definition user_findUnique :: "db \<Rightarrow> string \<Rightarrow> user option" where
  "user_findUnique s e = find (\<lambda>x. email x = e) (users s)"

text \<open>
  \<^verbatim>\<open>prisma.user.create\<close>: \<open>None\<close> is the unique-constraint violation (P2002) that the
  store raises for a username or an email it already holds.
\<close>

definition user_create :: "db \<Rightarrow> string \<Rightarrow> string \<Rightarrow> string \<Rightarrow> (user \<times> db) option" where
  "user_create s u e h =
     (if \<exists>x \<in> set (users s). username x = u \<or> email x = e then None
      else let newUser = \<lparr>user_id = user_seq s, username = u, email = e, passwordHash = h\<rparr>
           in Some (newUser, s\<lparr>users := users s @ [newUser], user_seq := user_seq s + 1\<rparr>))"

text \<open>
  \<^verbatim>\<open>prisma.task.findMany({ where: { authorId }, orderBy: [{ isDone: 'asc' }, { id: 'asc' }] })\<close>:
  the order is lexicographic on the pair, and \<open>False < True\<close>.
\<close>

definition task_findMany :: "db \<Rightarrow> int \<Rightarrow> task list" where
  "task_findMany s a =
     sort_key (\<lambda>t. (isDone t, task_id t)) (filter (\<lambda>t. authorId t = a) (tasks s))"

text \<open>
  \<^verbatim>\<open>prisma.task.create\<close>: \<open>None\<close> is the foreign-key violation the store raises when no
  user has the given \<open>authorId\<close>.
\<close>

definition task_create :: "db \<Rightarrow> string \<Rightarrow> int \<Rightarrow> bool \<Rightarrow> (task \<times> db) option" where
  "task_create s ttl a d =
     (if a \<notin> user_id ` set (users s) then None
      else let newTask = \<lparr>task_id = task_seq s, title = ttl, isDone = d, authorId = a\<rparr>
           in Some (newTask, s\<lparr>tasks := tasks s @ [newTask], task_seq := task_seq s + 1\<rparr>))"

text \<open>
  The \<^verbatim>\<open>updateData\<close> object of the PUT handler: each key is there or not. The title is a
  string by the time it is stored there; \<open>isDone\<close> is whatever the body held.
\<close>

record update_data =
  upd_title :: "string option"
  upd_isDone :: "jsvalue option"

text \<open>
  What Prisma accepts as the new value of a Boolean column: the boolean itself, or the
  object \<^verbatim>\<open>{ set: b }\<close> with a boolean \<open>b\<close>. \<open>None\<close> is anything else.
\<close>

definition isDone_input :: "jsvalue \<Rightarrow> bool option" where
  "isDone_input v =
     (case v of
        JBool b \<Rightarrow> Some b
      | JObj fs \<Rightarrow>
          (case fs of
             [(k, w)] \<Rightarrow>
               (if k = ''set'' then (case w of JBool b \<Rightarrow> Some b | _ \<Rightarrow> None) else None)
           | _ \<Rightarrow> None)
      | _ \<Rightarrow> None)"

definition apply_update :: "update_data \<Rightarrow> task \<Rightarrow> task" where
  "apply_update d t =
     (let t1 = (case upd_title d of None \<Rightarrow> t | Some ttl \<Rightarrow> t\<lparr>title := ttl\<rparr>)
      in case upd_isDone d of
           None \<Rightarrow> t1
         | Some v \<Rightarrow> (case isDone_input v of None \<Rightarrow> t1 | Some b \<Rightarrow> t1\<lparr>isDone := b\<rparr>))"

text \<open>
  \<^verbatim>\<open>prisma.task.updateMany({ where: { id, authorId }, data })\<close>: Prisma validates the
  arguments against the schema before it touches a row, and \<open>None\<close> is the validation error
  it throws when \<open>isDone\<close> is not a value it accepts for the column. Otherwise the number of
  rows matched and the store with those rows updated.
\<close>

definition task_updateMany :: "db \<Rightarrow> int \<Rightarrow> int \<Rightarrow> update_data \<Rightarrow> (nat \<times> db) option" where
  "task_updateMany s i a d =
     (if (case upd_isDone d of None \<Rightarrow> False | Some v \<Rightarrow> isDone_input v = None) then None
      else Some (length (filter (\<lambda>t. task_id t = i \<and> authorId t = a) (tasks s)),
                 s\<lparr>tasks := map (\<lambda>t. if task_id t = i \<and> authorId t = a then apply_update d t else t)
                               (tasks s)\<rparr>))"

text \<open>\<^verbatim>\<open>prisma.task.deleteMany({ where: { id, authorId } })\<close>\<close>

definition task_deleteMany :: "db \<Rightarrow> int \<Rightarrow> int \<Rightarrow> nat \<times> db" where
  "task_deleteMany s i a =
     (length (filter (\<lambda>t. task_id t = i \<and> authorId t = a) (tasks s)),
      s\<lparr>tasks := filter (\<lambda>t. \<not> (task_id t = i \<and> authorId t = a)) (tasks s)\<rparr>)"

text \<open>\<^verbatim>\<open>prisma.task.findUnique({ where: { id } })\<close>\<close>

definition task_findUnique :: "db \<Rightarrow> int \<Rightarrow> task option" where
  "task_findUnique s i = find (\<lambda>t. task_id t = i) (tasks s)"

text \<open>
  What the store guarantees of its tables: primary keys are unique and below the next id,
  usernames and emails are unique, and every task's author is a user.
\<close>

definition db_ok :: "db \<Rightarrow> bool" where
  "db_ok s \<longleftrightarrow>
     distinct (map task_id (tasks s)) \<and> list_all (\<lambda>t. task_id t < task_seq s) (tasks s) \<and>
     distinct (map user_id (users s)) \<and> list_all (\<lambda>u. user_id u < user_seq s) (users s) \<and>
     distinct (map username (users s)) \<and> distinct (map email (users s)) \<and>
     list_all (\<lambda>t. authorId t \<in> user_id ` set (users s)) (tasks s)"

definition empty_db :: db where
  "empty_db = \<lparr>users = [], tasks = [], user_seq = 1, task_seq = 1\<rparr>"

section \<open>The libraries\<close>

text \<open>
  \<^verbatim>\<open>bcrypt\<close> and \<^verbatim>\<open>jsonwebtoken\<close> are third-party packages; the handlers are modelled for
  any implementation of the four functions they call. \<open>bcrypt_hash data rounds salt\<close> is
  \<^verbatim>\<open>bcrypt.hash(data, rounds)\<close> with the salt it drew; \<open>jwt_sign userId secret expiresIn now\<close>
  is \<^verbatim>\<open>jwt.sign({ userId }, secret, { expiresIn })\<close> at the clock \<open>now\<close>, in seconds;
  \<open>jwt_verify token secret now\<close> is what \<^verbatim>\<open>jwt.verify\<close> passes to its callback: an error,
  or the \<open>userId\<close> of the decoded payload. \<open>string_filter\<close> is Prisma's reading of an object
  given where a condition on a string column is expected, such as \<^verbatim>\<open>{ contains: 'a' }\<close>: the
  predicate it stands for, or \<open>None\<close> when Prisma refuses it.
\<close>

datatype jwt_error = JsonWebTokenError | TokenExpiredError | NotBeforeError

record libs =
  bcrypt_hash :: "string \<Rightarrow> nat \<Rightarrow> string \<Rightarrow> string"
  bcrypt_compare :: "string \<Rightarrow> string \<Rightarrow> bool"
  jwt_sign :: "int \<Rightarrow> string \<Rightarrow> nat \<Rightarrow> nat \<Rightarrow> string"
  jwt_verify :: "string \<Rightarrow> string \<Rightarrow> nat \<Rightarrow> jwt_error + int"
  string_filter :: "jsobject \<Rightarrow> (string \<Rightarrow> bool) option"

text \<open>
  The contract of \<^verbatim>\<open>jsonwebtoken\<close> that registration relies on: a token verifies under the
  secret it was signed with, until it expires, and gives back the payload.
\<close>

definition jwt_roundtrip :: "libs \<Rightarrow> bool" where
  "jwt_roundtrip L \<longleftrightarrow>
     (\<forall>uid secret expiresIn iat t. t < iat + expiresIn \<longrightarrow>
        jwt_verify L (jwt_sign L uid secret expiresIn iat) secret t = Inr uid)"

text \<open>\<^verbatim>\<open>process.env.JWT_SECRET || 'your_super_secret_jwt_key_12345'\<close>\<close>

definition JWT_SECRET :: "string option \<Rightarrow> string" where
  "JWT_SECRET env =
     (case env of None \<Rightarrow> ''your_super_secret_jwt_key_12345''
      | Some v \<Rightarrow> if v = [] then ''your_super_secret_jwt_key_12345'' else v)"

text \<open>\<^verbatim>\<open>expiresIn: '7d'\<close>, in seconds.\<close>

definition seven_days :: nat where
  "seven_days = 604800"

section \<open>Replies\<close>

text \<open>
  A handler either sends a JSON reply with a status, or a \<^verbatim>\<open>TypeError\<close> escapes it: the
  statements before a handler's \<^verbatim>\<open>try\<close> are not guarded, and no reply is sent from there.
\<close>

datatype reply = Json nat jsvalue | Uncaught

definition err :: "string \<Rightarrow> jsvalue" where
  "err msg = JObj [(''error'', JStr msg)]"

text \<open>A string argument of a Prisma or bcrypt call; anything else makes the call throw.\<close>

fun str_of :: "jsvalue \<Rightarrow> string option" where
  "str_of (JStr x) = Some x"
| "str_of v = None"

text \<open>
  \<^verbatim>\<open>mapPrismaToFlutter\<close>, lines 33-44: \<open>None\<close> is the \<^verbatim>\<open>null\<close> of a lookup that found
  nothing, which is returned as it is; a row loses \<open>isDone\<close> and gains \<open>completed\<close> with the
  value \<open>isDone\<close> had.
\<close>

definition mapPrismaToFlutter :: "jsobject option \<Rightarrow> jsvalue" where
  "mapPrismaToFlutter task =
     (case task of
        None \<Rightarrow> JNull
      | Some fs \<Rightarrow>
          JObj (obj_set (filter (\<lambda>(k, v). k \<noteq> ''isDone'') fs) ''completed''
                  (get_field (JObj fs) ''isDone'')))"

section \<open>The authentication middleware\<close>

text \<open>
  \<^verbatim>\<open>authHeader && authHeader.split(' ')[1]\<close>, lines 55-56. The header is absent or a string;
  the empty string is falsy and is itself the token; \<open>None\<close> is \<^verbatim>\<open>undefined\<close>.
\<close>

definition bearer_token :: "string option \<Rightarrow> string option" where
  "bearer_token authHeader =
     (case authHeader of
        None \<Rightarrow> None
      | Some h \<Rightarrow>
          if h = [] then Some []
          else (case split_space h of a # b # r \<Rightarrow> Some b | _ \<Rightarrow> None))"

text \<open>
  \<^verbatim>\<open>authenticateToken\<close>, lines 54-73: it replies itself, or calls \<^verbatim>\<open>next()\<close> with
  \<^verbatim>\<open>req.userId\<close> set.
\<close>

datatype gate = Rejected reply | Next int

definition authenticateToken :: "libs \<Rightarrow> string \<Rightarrow> nat \<Rightarrow> string option \<Rightarrow> gate" where
  "authenticateToken L secret now authHeader =
     (case bearer_token authHeader of
        None \<Rightarrow> Rejected (Json 401 (err ''Unauthorized: Token missing.''))
      | Some token \<Rightarrow>
          (case jwt_verify L token secret now of
             Inl e \<Rightarrow> Rejected (Json 403 (err ''Forbidden: Invalid or expired token.''))
           | Inr uid \<Rightarrow> Next uid))"

section \<open>Registration and login\<close>

text \<open>
  A condition of a \<^verbatim>\<open>where\<close> on a string column: a string stands for equality with it, an
  object for what \<open>string_filter\<close> makes of it, and anything else makes the query throw.
\<close>

definition where_string :: "libs \<Rightarrow> jsvalue \<Rightarrow> (string \<Rightarrow> bool) option" where
  "where_string L v =
     (case v of
        JStr x \<Rightarrow> Some (\<lambda>y. y = x)
      | JObj f \<Rightarrow> string_filter L f
      | _ \<Rightarrow> None)"

text \<open>
  \<^verbatim>\<open>POST /api/register\<close>, lines 80-124. \<open>now\<close> is the clock in seconds and \<open>salt\<close> the salt
  bcrypt draws. A username or email that Prisma cannot read as a condition makes
  \<^verbatim>\<open>findFirst\<close> throw, a password that is not a string makes \<^verbatim>\<open>bcrypt.hash\<close> throw, and a
  username or email that is not a string makes \<^verbatim>\<open>create\<close> throw; all land in the
  \<^verbatim>\<open>catch\<close>.
\<close>

definition register :: "libs \<Rightarrow> string \<Rightarrow> nat \<Rightarrow> string \<Rightarrow> jsvalue \<Rightarrow> db \<Rightarrow> reply \<times> db" where
  "register L secret now salt body s =
     (if \<not> truthy body \<or> object_keys_length body = 0
      then (Json 400 (err ''Request body missing or invalid JSON format.''), s)
      else
        let uname = get_field body ''username'';
            mail = get_field body ''email'';
            pw = get_field body ''password''
        in
        if \<not> truthy uname \<or> \<not> truthy mail \<or> \<not> truthy pw
        then (Json 400 (err ''Please provide username, email, and password.''), s)
        else
          (case (where_string L uname, where_string L mail) of
             (Some P, Some Q) \<Rightarrow>
               (case user_findFirst s P Q of
                  Some existingUser \<Rightarrow>
                    (Json 409 (err ''User with this username or email already exists.''), s)
                | None \<Rightarrow>
                    (case (str_of pw, str_of uname, str_of mail) of
                       (Some p, Some u, Some e) \<Rightarrow>
                         (case user_create s u e (bcrypt_hash L p 10 salt) of
                            None \<Rightarrow> (Json 500 (err ''Server error during registration.''), s)
                          | Some (newUser, s') \<Rightarrow>
                              (Json 201
                                 (JObj [(''message'', JStr ''User registered successfully''),
                                        (''token'',
                                           JStr (jwt_sign L (user_id newUser) secret seven_days now)),
                                        (''user'',
                                           JObj [(''id'', JNum (user_id newUser)),
                                                 (''username'', JStr (username newUser)),
                                                 (''email'', JStr (email newUser))])]),
                               s'))
                     | _ \<Rightarrow> (Json 500 (err ''Server error during registration.''), s)))
           | _ \<Rightarrow> (Json 500 (err ''Server error during registration.''), s)))"

text \<open>\<^verbatim>\<open>POST /api/login\<close>, lines 127-166.\<close>

definition login :: "libs \<Rightarrow> string \<Rightarrow> nat \<Rightarrow> jsvalue \<Rightarrow> db \<Rightarrow> reply \<times> db" where
  "login L secret now body s =
     (if \<not> truthy body \<or> object_keys_length body = 0
      then (Json 400 (err ''Request body missing or invalid JSON format.''), s)
      else
        let mail = get_field body ''email'';
            pw = get_field body ''password''
        in
        if \<not> truthy mail \<or> \<not> truthy pw
        then (Json 400 (err ''Please provide email and password.''), s)
        else
          (case str_of mail of
             None \<Rightarrow> (Json 500 (err ''Server error during login.''), s)
           | Some e \<Rightarrow>
               (case user_findUnique s e of
                  None \<Rightarrow> (Json 401 (err ''Invalid email or password.''), s)
                | Some u \<Rightarrow>
                    (case str_of pw of
                       None \<Rightarrow> (Json 500 (err ''Server error during login.''), s)
                     | Some p \<Rightarrow>
                         if \<not> bcrypt_compare L p (passwordHash u)
                         then (Json 401 (err ''Invalid email or password.''), s)
                         else
                           (Json 200
                              (JObj [(''message'', JStr ''Login successful''),
                                     (''token'', JStr (jwt_sign L (user_id u) secret seven_days now)),
                                     (''user'',
                                        JObj [(''id'', JNum (user_id u)),
                                              (''username'', JStr (username u)),
                                              (''email'', JStr (email u))])]),
                            s)))))"

section \<open>The task routes\<close>

text \<open>
  Each handler takes \<^verbatim>\<open>req.userId\<close> as the middleware set it: the integer id the token was
  signed for, on which \<^verbatim>\<open>parseInt\<close> is the identity.

  \<^verbatim>\<open>GET /api/tasks\<close>, lines 180-200.
\<close>

definition get_tasks :: "int \<Rightarrow> db \<Rightarrow> reply \<times> db" where
  "get_tasks uid s =
     (Json 200 (JArr (map (\<lambda>t. mapPrismaToFlutter (Some (task_row t))) (task_findMany s uid))), s)"

text \<open>
  \<^verbatim>\<open>POST /api/tasks\<close>, lines 203-226. Destructuring a body that is undefined or null, and
  calling \<^verbatim>\<open>trim\<close> on a truthy title that is not a string, throw before the \<^verbatim>\<open>try\<close>.
\<close>

definition post_task :: "int \<Rightarrow> jsvalue \<Rightarrow> db \<Rightarrow> reply \<times> db" where
  "post_task uid body s =
     (if nullish body then (Uncaught, s)
      else
        let ttl = get_field body ''title'' in
        if \<not> truthy ttl then (Json 400 (err ''Task title is required.''), s)
        else
          (case str_of ttl of
             None \<Rightarrow> (Uncaught, s)
           | Some t \<Rightarrow>
               if js_trim t = [] then (Json 400 (err ''Task title is required.''), s)
               else
                 (case task_create s t uid False of
                    None \<Rightarrow> (Json 500 (err ''Failed to create task.''), s)
                  | Some (newTask, s') \<Rightarrow>
                      (Json 201 (mapPrismaToFlutter (Some (task_row newTask))), s'))))"

text \<open>
  Lines 240-258 of \<^verbatim>\<open>PUT /api/tasks/:id\<close>: the \<^verbatim>\<open>updateData\<close> object built from the
  body, or the reply that ends the request.
\<close>

definition build_updateData :: "jsvalue \<Rightarrow> reply + update_data" where
  "build_updateData body =
     (let ttl = get_field body ''title'';
          isDoneBody = get_field body ''isDone'';
          completed = get_field body ''completed'';
          new_isDone =
            (if \<not> nullish completed then Some completed
             else if \<not> nullish isDoneBody then Some isDoneBody
             else None)
      in
      if \<not> nullish ttl then
        (case str_of ttl of
           None \<Rightarrow> Inl Uncaught
         | Some t \<Rightarrow>
             if js_trim t = [] then Inl (Json 400 (err ''Task title cannot be empty.''))
             else Inr \<lparr>upd_title = Some t, upd_isDone = new_isDone\<rparr>)
      else if new_isDone = None
      then Inl (Json 400 (err ''Must provide title or completed status for update.''))
      else Inr \<lparr>upd_title = None, upd_isDone = new_isDone\<rparr>)"

text \<open>\<^verbatim>\<open>PUT /api/tasks/:id\<close>, lines 229-283; \<open>idparam\<close> is \<^verbatim>\<open>req.params.id\<close>.\<close>

definition put_task :: "int \<Rightarrow> string \<Rightarrow> jsvalue \<Rightarrow> db \<Rightarrow> reply \<times> db" where
  "put_task uid idparam body s =
     (if nullish body then (Uncaught, s)
      else
        (case parseInt idparam of
           None \<Rightarrow> (Json 400 (err ''Invalid task ID.''), s)
         | Some taskId \<Rightarrow>
             (case build_updateData body of
                Inl r \<Rightarrow> (r, s)
              | Inr updateData \<Rightarrow>
                  (case task_updateMany s taskId uid updateData of
                     None \<Rightarrow> (Json 500 (err ''Failed to update task.''), s)
                   | Some (cnt, s') \<Rightarrow>
                       if cnt = 0 then (Json 404 (err ''Task not found or unauthorized.''), s')
                       else
                         (Json 200
                            (mapPrismaToFlutter (map_option task_row (task_findUnique s' taskId))),
                          s')))))"

text \<open>\<^verbatim>\<open>DELETE /api/tasks/:id\<close>, lines 286-312.\<close>

definition delete_task :: "int \<Rightarrow> string \<Rightarrow> db \<Rightarrow> reply \<times> db" where
  "delete_task uid idparam s =
     (case parseInt idparam of
        None \<Rightarrow> (Json 400 (err ''Invalid task ID.''), s)
      | Some taskId \<Rightarrow>
          (case task_deleteMany s taskId uid of
             (cnt, s') \<Rightarrow>
               if cnt = 0 then (Json 404 (err ''Task not found or unauthorized.''), s')
               else (Json 200 (JObj [(''message'', JStr ''Task deleted successfully.'')]), s')))"

text \<open>
  \<^verbatim>\<open>app.use('/api/tasks', authenticateToken)\<close>, line 174, in front of the four routes.
\<close>

datatype task_request =
    GET_tasks
  | POST_tasks jsvalue
  | PUT_task string jsvalue
  | DELETE_task string

fun task_handler :: "task_request \<Rightarrow> int \<Rightarrow> db \<Rightarrow> reply \<times> db" where
  "task_handler GET_tasks uid s = get_tasks uid s"
| "task_handler (POST_tasks body) uid s = post_task uid body s"
| "task_handler (PUT_task idparam body) uid s = put_task uid idparam body s"
| "task_handler (DELETE_task idparam) uid s = delete_task uid idparam s"

definition api_tasks ::
  "libs \<Rightarrow> string \<Rightarrow> nat \<Rightarrow> string option \<Rightarrow> task_request \<Rightarrow> db \<Rightarrow> reply \<times> db" where
  "api_tasks L secret now authHeader rq s =
     (case authenticateToken L secret now authHeader of
        Rejected r \<Rightarrow> (r, s)
      | Next uid \<Rightarrow> task_handler rq uid s)"

section \<open>A reference instance and example data\<close>

text \<open>
  An instance of the library interface, small enough to compute with: the digest keeps the
  salt in front of the reversed data, a token spells out the user id and the expiry time in
  unary in front of the secret, and the only filter read is \<^verbatim>\<open>{ not: x }\<close>. It shows that
  \<open>jwt_roundtrip\<close> can be met and gives the examples below something to run on.
\<close>

definition ref_hash :: "string \<Rightarrow> nat \<Rightarrow> string \<Rightarrow> string" where
  "ref_hash d rounds salt = salt @ ''$'' @ rev d"

definition ref_compare :: "string \<Rightarrow> string \<Rightarrow> bool" where
  "ref_compare d h = (take (Suc (length d)) (rev h) = d @ ''$'')"

definition ref_sign :: "int \<Rightarrow> string \<Rightarrow> nat \<Rightarrow> nat \<Rightarrow> string" where
  "ref_sign uid secret expiresIn iat =
     (if uid < 0 then CHR ''-'' else CHR ''+'') # replicate (nat \<bar>uid\<bar>) CHR ''i'' @
     CHR ''.'' # replicate (iat + expiresIn) CHR ''e'' @ CHR ''.'' # secret"

definition ref_verify :: "string \<Rightarrow> string \<Rightarrow> nat \<Rightarrow> jwt_error + int" where
  "ref_verify token secret now =
     (case token of
        [] \<Rightarrow> Inl JsonWebTokenError
      | sg # r \<Rightarrow>
          let r1 = dropWhile (\<lambda>c. c = CHR ''i'') r;
              r2 = dropWhile (\<lambda>c. c = CHR ''e'') (drop 1 r1)
          in
          if (sg = CHR ''-'' \<or> sg = CHR ''+'') \<and> take 1 r1 = ''.'' \<and> take 1 r2 = ''.'' \<and>
             drop 1 r2 = secret
          then
            if now < length (takeWhile (\<lambda>c. c = CHR ''e'') (drop 1 r1))
            then Inr ((if sg = CHR ''-'' then - 1 else 1) *
                      int (length (takeWhile (\<lambda>c. c = CHR ''i'') r)))
            else Inl TokenExpiredError
          else Inl JsonWebTokenError)"

definition ref_filter :: "jsobject \<Rightarrow> (string \<Rightarrow> bool) option" where
  "ref_filter f =
     (case f of
        [(k, JStr x)] \<Rightarrow> if k = ''not'' then Some (\<lambda>y. y \<noteq> x) else None
      | _ \<Rightarrow> None)"

definition ref_libs :: libs where
  "ref_libs = \<lparr>bcrypt_hash = ref_hash, bcrypt_compare = ref_compare,
               jwt_sign = ref_sign, jwt_verify = ref_verify, string_filter = ref_filter\<rparr>"

text \<open>Two users; the first owns tasks 1 (done) and 2, the second owns task 3.\<close>

definition demo_db :: db where
  "demo_db =
     \<lparr>users =
        [\<lparr>user_id = 1, username = ''alice'', email = ''a@x.com'', passwordHash = ''s1$1p''\<rparr>,
         \<lparr>user_id = 2, username = ''bob'', email = ''b@x.com'', passwordHash = ''s2$2p''\<rparr>],
      tasks =
        [\<lparr>task_id = 1, title = ''buy milk'', isDone = True, authorId = 1\<rparr>,
         \<lparr>task_id = 2, title = ''call home'', isDone = False, authorId = 1\<rparr>,
         \<lparr>task_id = 3, title = ''pay rent'', isDone = False, authorId = 2\<rparr>],
      user_seq = 3, task_seq = 4\<rparr>"

section \<open>The earlier copy of the server\<close>

text \<open>
  \<^verbatim>\<open>src/unnamed/part_000\<close> is an earlier copy of \<^verbatim>\<open>src/server.js\<close>, written for a schema
  whose completion column was still called \<open>completed\<close>. Its \<^verbatim>\<open>GET /api/tasks\<close>, lines
  144-159, selects by \<open>authorId\<close> as the later one does, orders by id alone and sends the
  rows as they are. The row's flag is read here as that \<open>completed\<close> column.
\<close>

definition legacy_task_row :: "task \<Rightarrow> jsobject" where
  "legacy_task_row t =
     [(''id'', JNum (task_id t)), (''title'', JStr (title t)),
      (''completed'', JBool (isDone t)), (''authorId'', JNum (authorId t))]"

definition legacy_findMany :: "db \<Rightarrow> int \<Rightarrow> task list" where
  "legacy_findMany s a = sort_key task_id (filter (\<lambda>t. authorId t = a) (tasks s))"

definition legacy_get_tasks :: "int \<Rightarrow> db \<Rightarrow> reply \<times> db" where
  "legacy_get_tasks uid s =
     (Json 200 (JArr (map (\<lambda>t. JObj (legacy_task_row t)) (legacy_findMany s uid))), s)"

text \<open>
  Its \<^verbatim>\<open>POST /api/login\<close>, lines 96-132, has no check of the body as a whole, so
  destructuring a missing body throws; the token lasts one hour; the rest is as in
  \<^verbatim>\<open>src/server.js\<close>.
\<close>

definition legacy_login :: "libs \<Rightarrow> string \<Rightarrow> nat \<Rightarrow> jsvalue \<Rightarrow> db \<Rightarrow> reply \<times> db" where
  "legacy_login L secret now body s =
     (if nullish body then (Uncaught, s)
      else
        let mail = get_field body ''email'';
            pw = get_field body ''password''
        in
        if \<not> truthy mail \<or> \<not> truthy pw
        then (Json 400 (err ''Please provide email and password.''), s)
        else
          (case str_of mail of
             None \<Rightarrow> (Json 500 (err ''Server error during login.''), s)
           | Some e \<Rightarrow>
               (case user_findUnique s e of
                  None \<Rightarrow> (Json 401 (err ''Invalid email or password.''), s)
                | Some u \<Rightarrow>
                    (case str_of pw of
                       None \<Rightarrow> (Json 500 (err ''Server error during login.''), s)
                     | Some p \<Rightarrow>
                         if \<not> bcrypt_compare L p (passwordHash u)
                         then (Json 401 (err ''Invalid email or password.''), s)
                         else
                           (Json 200
                              (JObj [(''message'', JStr ''Login successful''),
                                     (''token'', JStr (jwt_sign L (user_id u) secret 3600 now)),
                                     (''user'',
                                        JObj [(''id'', JNum (user_id u)),
                                              (''username'', JStr (username u)),
                                              (''email'', JStr (email u))])]),
                            s)))))"

section \<open>The reference instance meets the token contract\<close>

lemma dropWhile_replicate_sep:
  "P x \<Longrightarrow> \<not> P y \<Longrightarrow> dropWhile P (replicate n x @ y # ys) = y # ys"
  by (induction n) simp_all

lemma takeWhile_replicate_sep:
  "P x \<Longrightarrow> \<not> P y \<Longrightarrow> takeWhile P (replicate n x @ y # ys) = replicate n x"
  by (induction n) simp_all

lemma ref_verify_sign:
  "ref_verify (ref_sign uid secret expiresIn iat) secret t =
     (if t < iat + expiresIn then Inr uid else Inl TokenExpiredError)"
  by (simp add: ref_verify_def ref_sign_def takeWhile_replicate_sep dropWhile_replicate_sep Let_def)

lemma ref_libs_roundtrip: "jwt_roundtrip ref_libs"
  by (simp add: jwt_roundtrip_def ref_libs_def ref_verify_sign)


section \<open>What the middleware lets through\<close>

text \<open>
  No token reaches \<^verbatim>\<open>jwt.verify\<close> exactly when the header is absent, or is a non-empty
  string without a space.
\<close>

lemma length_split_space:
  "length (split_space x) = Suc (length (filter (\<lambda>c. c = CHR '' '') x))"
  by (induction x) (auto split: list.splits)

lemma bearer_token_None_iff:
  "bearer_token authHeader = None \<longleftrightarrow>
     authHeader = None \<or> (\<exists>h. authHeader = Some h \<and> h \<noteq> [] \<and> CHR '' '' \<notin> set h)"
proof (cases authHeader)
  case None
  then show ?thesis by (simp add: bearer_token_def)
next
  case (Some h)
  have "(case split_space h of a # b # r \<Rightarrow> Some b | _ \<Rightarrow> None) = None
          \<longleftrightarrow> length (split_space h) < 2"
    by (cases "split_space h" rule: list.exhaust; simp split: list.splits)
  also have "\<dots> \<longleftrightarrow> CHR '' '' \<notin> set h"
    by (auto simp add: length_split_space filter_empty_conv)
  finally show ?thesis using Some by (simp add: bearer_token_def)
qed

text \<open>
  C5. On every protected route: when the request has no \<^verbatim>\<open>Authorization\<close> header, or one
  that holds no token, the reply is 401, and when verification of the token fails, for
  whatever reason, the reply is 403; in both cases the reply and the unchanged store are the
  same for every route and body, so no handler has run. When verification succeeds, the
  middleware sets the request's user id to the one in the token and the route's handler
  runs with it.
\<close>

theorem auth_gate_outcomes:
  "(authHeader = None \<or> (\<exists>h. authHeader = Some h \<and> h \<noteq> [] \<and> CHR '' '' \<notin> set h) \<longrightarrow>
      api_tasks L secret now authHeader rq s =
        (Json 401 (err ''Unauthorized: Token missing.''), s)) \<and>
   (\<forall>token e. bearer_token authHeader = Some token \<longrightarrow>
      jwt_verify L token secret now = Inl e \<longrightarrow>
      api_tasks L secret now authHeader rq s =
        (Json 403 (err ''Forbidden: Invalid or expired token.''), s)) \<and>
   (\<forall>token uid. bearer_token authHeader = Some token \<longrightarrow>
      jwt_verify L token secret now = Inr uid \<longrightarrow>
      authenticateToken L secret now authHeader = Next uid \<and>
      api_tasks L secret now authHeader rq s = task_handler rq uid s)"
proof -
  have "bearer_token authHeader = None"
    if "authHeader = None \<or> (\<exists>h. authHeader = Some h \<and> h \<noteq> [] \<and> CHR '' '' \<notin> set h)"
    using that by (simp only: bearer_token_None_iff)
  then show ?thesis
    by (simp add: api_tasks_def authenticateToken_def)
qed

theorem auth_gate_outcomes_witness:
  "api_tasks ref_libs ''k'' 0 None (DELETE_task ''1'') empty_db =
     (Json 401 (err ''Unauthorized: Token missing.''), empty_db) \<and>
   api_tasks ref_libs ''k'' 1 (Some ''Bearer +i.e.k'') (DELETE_task ''1'') empty_db =
     (Json 403 (err ''Forbidden: Invalid or expired token.''), empty_db) \<and>
   api_tasks ref_libs ''j'' 0 (Some ''Bearer +i.e.k'') (DELETE_task ''1'') empty_db =
     (Json 403 (err ''Forbidden: Invalid or expired token.''), empty_db) \<and>
   api_tasks ref_libs ''k'' 0 (Some ''Bearer +i.e.k'') (DELETE_task ''1'') empty_db =
     task_handler (DELETE_task ''1'') 1 empty_db"
proof -
  let ?rq = "DELETE_task ''1''"
  have tok: "bearer_token (Some ''Bearer +i.e.k'') = Some ''+i.e.k''"
    by (simp add: bearer_token_def)
  have expired: "jwt_verify ref_libs ''+i.e.k'' ''k'' 1 = Inl TokenExpiredError"
    by (simp add: ref_libs_def ref_verify_def)
  have forged: "jwt_verify ref_libs ''+i.e.k'' ''j'' 0 = Inl JsonWebTokenError"
    by (simp add: ref_libs_def ref_verify_def)
  have good: "jwt_verify ref_libs ''+i.e.k'' ''k'' 0 = Inr 1"
    by (simp add: ref_libs_def ref_verify_def)
  have "api_tasks ref_libs ''k'' 0 None ?rq empty_db =
          (Json 401 (err ''Unauthorized: Token missing.''), empty_db)"
    using auth_gate_outcomes [of None ref_libs "''k''" 0 ?rq empty_db] by simp
  moreover have "api_tasks ref_libs ''k'' 1 (Some ''Bearer +i.e.k'') ?rq empty_db =
          (Json 403 (err ''Forbidden: Invalid or expired token.''), empty_db)"
    using auth_gate_outcomes [of "Some ''Bearer +i.e.k''" ref_libs "''k''" 1 ?rq empty_db]
      tok expired by (simp only:)
  moreover have "api_tasks ref_libs ''j'' 0 (Some ''Bearer +i.e.k'') ?rq empty_db =
          (Json 403 (err ''Forbidden: Invalid or expired token.''), empty_db)"
    using auth_gate_outcomes [of "Some ''Bearer +i.e.k''" ref_libs "''j''" 0 ?rq empty_db]
      tok forged by (simp only:)
  moreover have "api_tasks ref_libs ''k'' 0 (Some ''Bearer +i.e.k'') ?rq empty_db =
          task_handler ?rq 1 empty_db"
    using auth_gate_outcomes [of "Some ''Bearer +i.e.k''" ref_libs "''k''" 0 ?rq empty_db]
      tok good by (simp only:)
  ultimately show ?thesis
    by (simp only: simp_thms)
qed

section \<open>Properties of registration and login\<close>

lemma get_field_JStr_body:
  "get_field body k = JStr x \<Longrightarrow> truthy body \<and> object_keys_length body \<noteq> 0"
  by (cases body) (auto split: option.splits)

lemma user_findUnique_None_iff:
  "user_findUnique s e = None \<longleftrightarrow> e \<notin> email ` set (users s)"
  by (auto simp add: user_findUnique_def find_None_iff)

lemma user_findFirst_None_iff:
  "user_findFirst s (\<lambda>y. y = u) (\<lambda>y. y = e) = None \<longleftrightarrow>
     \<not> (\<exists>x \<in> set (users s). username x = u \<or> email x = e)"
  by (auto simp add: user_findFirst_def find_None_iff)

text \<open>
  A login whose email and password are non-empty strings gets one and the same reply,
  status 401 with the body \<^verbatim>\<open>{ error: 'Invalid email or password.' }\<close>, when no user has
  the email and when the user's stored hash does not match the password; the store is as
  it was.
\<close>

lemma login_failures_same_for_strings:
  assumes "get_field body ''email'' = JStr e" and "e \<noteq> []"
    and "get_field body ''password'' = JStr p" and "p \<noteq> []"
    and "e \<notin> email ` set (users s) \<or>
         (\<exists>u. user_findUnique s e = Some u \<and> \<not> bcrypt_compare L p (passwordHash u))"
  shows "login L secret now body s = (Json 401 (err ''Invalid email or password.''), s)"
proof -
  have body: "truthy body" "object_keys_length body \<noteq> 0"
    using assms(1) get_field_JStr_body by blast+
  from assms(5) show ?thesis
  proof
    assume "e \<notin> email ` set (users s)"
    then have "user_findUnique s e = None"
      by (simp add: user_findUnique_None_iff)
    then show ?thesis
      using body assms(1-4) by (simp add: login_def)
  next
    assume "\<exists>u. user_findUnique s e = Some u \<and> \<not> bcrypt_compare L p (passwordHash u)"
    then show ?thesis
      using body assms(1-4) by (auto simp add: login_def)
  qed
qed

lemma login_failures_same_for_strings_example:
  "login ref_libs ''k'' 0
     (JObj [(''email'', JStr ''nobody@x.com''), (''password'', JStr ''p1'')]) demo_db =
     (Json 401 (err ''Invalid email or password.''), demo_db) \<and>
   login ref_libs ''k'' 0
     (JObj [(''email'', JStr ''a@x.com''), (''password'', JStr ''p2'')]) demo_db =
     (Json 401 (err ''Invalid email or password.''), demo_db)"
proof -
  have absent: "''nobody@x.com'' \<notin> email ` set (users demo_db)"
    by (simp add: demo_db_def)
  have wrong: "\<exists>u. user_findUnique demo_db ''a@x.com'' = Some u \<and>
                  \<not> bcrypt_compare ref_libs ''p2'' (passwordHash u)"
    by (simp add: demo_db_def user_findUnique_def ref_libs_def ref_compare_def)
  show ?thesis
    using login_failures_same_for_strings
        [of "JObj [(''email'', JStr ''nobody@x.com''), (''password'', JStr ''p1'')]"
            "''nobody@x.com''" "''p1''" demo_db ref_libs "''k''" 0]
      login_failures_same_for_strings
        [of "JObj [(''email'', JStr ''a@x.com''), (''password'', JStr ''p2'')]"
            "''a@x.com''" "''p2''" demo_db ref_libs "''k''" 0]
      absent wrong
    by simp
qed

text \<open>
  C2 does not hold of the handler. Its check of the body, line 134, asks only that the
  password be truthy, so a password that is a number other than 0 goes on. For an email no
  user has the reply is then 401, from line 144; for the email of a user,
  \<^verbatim>\<open>bcrypt.compare\<close> throws on the number at line 147 and the \<^verbatim>\<open>catch\<close> replies 500. The
  two replies tell a client whether the email is registered.
\<close>

theorem login_number_password_distinguishes:
  assumes "e \<noteq> []" and "n \<noteq> 0"
  shows "login L secret now (JObj [(''email'', JStr e), (''password'', JNum n)]) s =
           (if e \<in> email ` set (users s)
            then (Json 500 (err ''Server error during login.''), s)
            else (Json 401 (err ''Invalid email or password.''), s))"
proof (cases "user_findUnique s e")
  case None
  then have "e \<notin> email ` set (users s)"
    by (simp add: user_findUnique_None_iff)
  with None assms show ?thesis
    by (simp add: login_def)
next
  case (Some u)
  then have "e \<in> email ` set (users s)"
    using user_findUnique_None_iff [of s e] by simp
  with Some assms show ?thesis
    by (simp add: login_def)
qed

theorem login_number_password_distinguishes_witness:
  "login ref_libs ''k'' 0
     (JObj [(''email'', JStr ''nobody@x.com''), (''password'', JNum 5)]) demo_db =
     (Json 401 (err ''Invalid email or password.''), demo_db) \<and>
   login ref_libs ''k'' 0
     (JObj [(''email'', JStr ''a@x.com''), (''password'', JNum 5)]) demo_db =
     (Json 500 (err ''Server error during login.''), demo_db)"
proof -
  have emails: "email ` set (users demo_db) = {''a@x.com'', ''b@x.com''}"
    by (simp add: demo_db_def)
  show ?thesis
    using login_number_password_distinguishes [of "''nobody@x.com''" 5 ref_libs "''k''" 0 demo_db]
      login_number_password_distinguishes [of "''a@x.com''" 5 ref_libs "''k''" 0 demo_db]
    by (simp add: emails)
qed

text \<open>
  An object in place of the username is read as a filter: \<^verbatim>\<open>{ not: 'zed' }\<close> matches the
  first user and the reply is 409.
\<close>

lemma register_filter_object_example:
  "register ref_libs ''k'' 0 ''s3''
     (JObj [(''username'', JObj [(''not'', JStr ''zed'')]), (''email'', JStr ''z@x.com''),
            (''password'', JStr ''p3'')]) demo_db =
     (Json 409 (err ''User with this username or email already exists.''), demo_db)"
  by (simp add: register_def where_string_def user_findFirst_def demo_db_def ref_libs_def
      ref_filter_def)

text \<open>
  C4. A registration whose username, email and password are non-empty strings: when a user
  already has the username or the email, the reply is 409 and the store is as it was;
  otherwise the store gains one user, under the next id, whose password hash is the digest
  \<^verbatim>\<open>bcrypt.hash\<close> returned for the password, and the reply is 201 with a message, a
  token and a user object whose only keys are id, username and email.
\<close>

theorem register_conflict_or_created:
  assumes "get_field body ''username'' = JStr u" and "u \<noteq> []"
    and "get_field body ''email'' = JStr e" and "e \<noteq> []"
    and "get_field body ''password'' = JStr p" and "p \<noteq> []"
  shows
    "((\<exists>x \<in> set (users s). username x = u \<or> email x = e) \<longrightarrow>
        register L secret now salt body s =
          (Json 409 (err ''User with this username or email already exists.''), s)) \<and>
     (\<not> (\<exists>x \<in> set (users s). username x = u \<or> email x = e) \<longrightarrow>
        register L secret now salt body s =
          (Json 201
             (JObj [(''message'', JStr ''User registered successfully''),
                    (''token'', JStr (jwt_sign L (user_seq s) secret seven_days now)),
                    (''user'',
                       JObj [(''id'', JNum (user_seq s)), (''username'', JStr u),
                             (''email'', JStr e)])]),
           s\<lparr>users := users s @
                 [\<lparr>user_id = user_seq s, username = u, email = e,
                   passwordHash = bcrypt_hash L p 10 salt\<rparr>],
              user_seq := user_seq s + 1\<rparr>))"
proof -
  have body: "truthy body" "object_keys_length body \<noteq> 0"
    using assms(1) get_field_JStr_body by blast+
  show ?thesis
  proof (cases "\<exists>x \<in> set (users s). username x = u \<or> email x = e")
    case True
    then obtain x where "user_findFirst s (\<lambda>y. y = u) (\<lambda>y. y = e) = Some x"
      using user_findFirst_None_iff [of s u e]
      by (cases "user_findFirst s (\<lambda>y. y = u) (\<lambda>y. y = e)") auto
    then show ?thesis
      using True body assms by (simp add: register_def where_string_def)
  next
    case False
    then have "user_findFirst s (\<lambda>y. y = u) (\<lambda>y. y = e) = None"
      by (simp add: user_findFirst_None_iff)
    then show ?thesis
      using False body assms by (simp add: register_def where_string_def user_create_def Let_def)
  qed
qed

theorem register_conflict_or_created_witness:
  "register ref_libs ''k'' 0 ''s3''
     (JObj [(''username'', JStr ''alice''), (''email'', JStr ''new@x.com''),
            (''password'', JStr ''p3'')]) demo_db =
     (Json 409 (err ''User with this username or email already exists.''), demo_db) \<and>
   register ref_libs ''k'' 0 ''s3''
     (JObj [(''username'', JStr ''carol''), (''email'', JStr ''c@x.com''),
            (''password'', JStr ''p3'')]) demo_db =
     (Json 201
        (JObj [(''message'', JStr ''User registered successfully''),
               (''token'', JStr (jwt_sign ref_libs 3 ''k'' seven_days 0)),
               (''user'',
                  JObj [(''id'', JNum 3), (''username'', JStr ''carol''),
                        (''email'', JStr ''c@x.com'')])]),
      demo_db\<lparr>users := users demo_db @
                  [\<lparr>user_id = 3, username = ''carol'', email = ''c@x.com'',
                    passwordHash = ''s3$3p''\<rparr>],
               user_seq := 4\<rparr>)"
proof -
  have taken: "\<exists>x \<in> set (users demo_db). username x = ''alice'' \<or> email x = ''new@x.com''"
    by (simp add: demo_db_def)
  have free: "\<not> (\<exists>x \<in> set (users demo_db). username x = ''carol'' \<or> email x = ''c@x.com'')"
    by (simp add: demo_db_def)
  have seq: "user_seq demo_db = 3"
    by (simp add: demo_db_def)
  have digest: "bcrypt_hash ref_libs ''p3'' 10 ''s3'' = ''s3$3p''"
    by (simp add: ref_libs_def ref_hash_def)
  show ?thesis
    using register_conflict_or_created
        [of "JObj [(''username'', JStr ''alice''), (''email'', JStr ''new@x.com''),
                   (''password'', JStr ''p3'')]"
            "''alice''" "''new@x.com''" "''p3''" demo_db ref_libs "''k''" 0 "''s3''"]
      register_conflict_or_created
        [of "JObj [(''username'', JStr ''carol''), (''email'', JStr ''c@x.com''),
                   (''password'', JStr ''p3'')]"
            "''carol''" "''c@x.com''" "''p3''" demo_db ref_libs "''k''" 0 "''s3''"]
      taken free seq digest
    by simp
qed

lemma split_space_no_space: "CHR '' '' \<notin> set x \<Longrightarrow> split_space x = [x]"
  by (induction x) auto

lemma bearer_token_Bearer:
  "CHR '' '' \<notin> set token \<Longrightarrow> bearer_token (Some (''Bearer '' @ token)) = Some token"
  by (simp add: bearer_token_def split_space_no_space)

text \<open>
  C3. Whenever registration replies 201, the store has gained exactly one user, the id in
  the reply's user object is that user's id, and at any time before the token's seven days
  are over, verifying the reply's token with the secret it was signed with gives that id;
  sent as \<^verbatim>\<open>Authorization: Bearer token\<close>, it gets through the middleware with that id.
  The library is any that meets \<open>jwt_roundtrip\<close>.
\<close>

theorem register_token_verifies:
  assumes "jwt_roundtrip L"
    and "register L secret now salt body s = (Json 201 v, s')"
    and "t < now + seven_days"
  shows "\<exists>token uid u.
           get_field v ''token'' = JStr token \<and>
           get_field (get_field v ''user'') ''id'' = JNum uid \<and>
           users s' = users s @ [u] \<and> user_id u = uid \<and>
           jwt_verify L token secret t = Inr uid \<and>
           (CHR '' '' \<notin> set token \<longrightarrow>
              authenticateToken L secret t (Some (''Bearer '' @ token)) = Next uid)"
proof -
  let ?uid = "user_seq s"
  let ?token = "jwt_sign L ?uid secret seven_days now"
  from assms(2) obtain u where
    v: "get_field v ''token'' = JStr ?token"
       "get_field (get_field v ''user'') ''id'' = JNum ?uid"
    and s': "users s' = users s @ [u]" "user_id u = ?uid"
    by (auto simp add: register_def user_create_def Let_def
        split: if_splits option.splits prod.splits)
  have ok: "jwt_verify L ?token secret t = Inr ?uid"
    using assms(1,3) by (simp add: jwt_roundtrip_def)
  then have "CHR '' '' \<notin> set ?token \<longrightarrow>
               authenticateToken L secret t (Some (''Bearer '' @ ?token)) = Next ?uid"
    using bearer_token_Bearer [of ?token] by (simp add: authenticateToken_def)
  with v s' ok show ?thesis by blast
qed

theorem register_token_verifies_witness:
  "register ref_libs (JWT_SECRET None) 1000 ''s3''
     (JObj [(''username'', JStr ''carol''), (''email'', JStr ''c@x.com''),
            (''password'', JStr ''p3'')]) demo_db =
     (Json 201
        (JObj [(''message'', JStr ''User registered successfully''),
               (''token'', JStr (jwt_sign ref_libs 3 (JWT_SECRET None) seven_days 1000)),
               (''user'',
                  JObj [(''id'', JNum 3), (''username'', JStr ''carol''),
                        (''email'', JStr ''c@x.com'')])]),
      demo_db\<lparr>users := users demo_db @
                  [\<lparr>user_id = 3, username = ''carol'', email = ''c@x.com'',
                    passwordHash = ''s3$3p''\<rparr>],
               user_seq := 4\<rparr>) \<and>
   (604799::nat) < 1000 + seven_days \<and>
   jwt_verify ref_libs (jwt_sign ref_libs 3 (JWT_SECRET None) seven_days 1000) (JWT_SECRET None) 604799 = Inr 3 \<and>
   authenticateToken ref_libs (JWT_SECRET None) 604799
     (Some (''Bearer '' @ jwt_sign ref_libs 3 (JWT_SECRET None) seven_days 1000)) = Next 3"
proof -
  let ?body = "JObj [(''username'', JStr ''carol''), (''email'', JStr ''c@x.com''),
                     (''password'', JStr ''p3'')]"
  let ?v = "JObj [(''message'', JStr ''User registered successfully''),
                  (''token'', JStr (jwt_sign ref_libs 3 (JWT_SECRET None) seven_days 1000)),
                  (''user'',
                     JObj [(''id'', JNum 3), (''username'', JStr ''carol''),
                           (''email'', JStr ''c@x.com'')])]"
  let ?s' = "demo_db\<lparr>users := users demo_db @
                        [\<lparr>user_id = 3, username = ''carol'', email = ''c@x.com'',
                          passwordHash = ''s3$3p''\<rparr>],
                     user_seq := 4\<rparr>"
  have reg: "register ref_libs (JWT_SECRET None) 1000 ''s3'' ?body demo_db = (Json 201 ?v, ?s')"
    by (simp add: register_def where_string_def user_findFirst_def user_create_def demo_db_def
        ref_libs_def ref_hash_def Let_def)
  have early: "(604799::nat) < 1000 + seven_days"
    by (simp add: seven_days_def)
  have plain: "CHR '' '' \<notin> set (jwt_sign ref_libs 3 (JWT_SECRET None) seven_days 1000)"
    by (simp add: ref_libs_def ref_sign_def JWT_SECRET_def)
  show ?thesis
    using register_token_verifies [OF ref_libs_roundtrip reg early] plain reg early
    by auto
qed

section \<open>Properties of the task routes\<close>

text \<open>What a handler sends for a row: \<open>isDone\<close> has become \<open>completed\<close>, last in the object.\<close>

lemma mapPrismaToFlutter_task_row:
  "mapPrismaToFlutter (Some (task_row t)) =
     JObj [(''id'', JNum (task_id t)), (''title'', JStr (title t)),
           (''authorId'', JNum (authorId t)), (''completed'', JBool (isDone t))]"
  by (simp add: mapPrismaToFlutter_def task_row_def)

lemma mset_task_findMany:
  "mset (task_findMany s a) = filter_mset (\<lambda>t. authorId t = a) (mset (tasks s))"
  by (simp add: task_findMany_def)

lemma set_task_findMany:
  "set (task_findMany s a) = {t \<in> set (tasks s). authorId t = a}"
  by (simp add: task_findMany_def)

lemma sorted_task_findMany:
  "sorted_wrt (\<lambda>x y. (\<not> isDone x \<and> isDone y) \<or> (isDone x = isDone y \<and> task_id x \<le> task_id y))
     (task_findMany s a)"
proof -
  have "sorted (map (\<lambda>t. (isDone t, task_id t)) (task_findMany s a))"
    unfolding task_findMany_def by (rule sorted_sort_key)
  then have "sorted_wrt (\<lambda>x y. (isDone x, task_id x) \<le> (isDone y, task_id y)) (task_findMany s a)"
    by (simp add: sorted_map)
  then show ?thesis
    by (rule sorted_wrt_mono_rel [rotated]) (auto simp add: less_eq_prod_def)
qed

text \<open>
  C6. \<^verbatim>\<open>GET /api/tasks\<close> replies 200 with one object per row of \<open>task_findMany\<close>, in its
  order. Those rows are exactly the user's tasks, each as often as the table has it, and of
  any two of them the earlier one is incomplete and the later one completed, or both are in
  the same completion group and the earlier one has the smaller id.
\<close>

theorem get_tasks_own_tasks_ordered:
  "get_tasks uid s =
     (Json 200
        (JArr (map (\<lambda>t. JObj [(''id'', JNum (task_id t)), (''title'', JStr (title t)),
                               (''authorId'', JNum (authorId t)),
                               (''completed'', JBool (isDone t))])
                 (task_findMany s uid))), s) \<and>
   mset (task_findMany s uid) = filter_mset (\<lambda>t. authorId t = uid) (mset (tasks s)) \<and>
   sorted_wrt (\<lambda>x y. (\<not> isDone x \<and> isDone y) \<or> (isDone x = isDone y \<and> task_id x \<le> task_id y))
     (task_findMany s uid)"
  by (simp add: get_tasks_def mapPrismaToFlutter_task_row mset_task_findMany
      sorted_task_findMany)

lemma task_findMany_demo:
  "task_findMany demo_db 1 =
     [\<lparr>task_id = 2, title = ''call home'', isDone = False, authorId = 1\<rparr>,
      \<lparr>task_id = 1, title = ''buy milk'', isDone = True, authorId = 1\<rparr>]"
  by (simp add: task_findMany_def demo_db_def less_eq_prod_def)

theorem get_tasks_own_tasks_ordered_witness:
  "get_tasks 1 demo_db =
     (Json 200
        (JArr [JObj [(''id'', JNum 2), (''title'', JStr ''call home''), (''authorId'', JNum 1),
                     (''completed'', JBool False)],
               JObj [(''id'', JNum 1), (''title'', JStr ''buy milk''), (''authorId'', JNum 1),
                     (''completed'', JBool True)]]), demo_db)"
  using get_tasks_own_tasks_ordered [of 1 demo_db] by (simp add: task_findMany_demo)

lemma no_row_of_other_author:
  assumes "distinct (map task_id ts)" and "t \<in> set ts" and "authorId t \<noteq> b"
  shows "filter (\<lambda>x. task_id x = task_id t \<and> authorId x = b) ts = []"
proof -
  have "x = t" if "x \<in> set ts" and "task_id x = task_id t" for x
    using that assms(1,2) by (meson distinct_map inj_onD)
  with assms(3) show ?thesis
    by (auto simp add: filter_empty_conv)
qed

lemma map_no_match: "filter P ts = [] \<Longrightarrow> map (\<lambda>x. if P x then f x else x) ts = ts"
  by (induction ts) (auto split: if_splits)

lemma filter_no_match: "filter P ts = [] \<Longrightarrow> filter (\<lambda>x. \<not> P x) ts = ts"
  by (induction ts) (auto split: if_splits)

lemma build_updateData_Inl:
  "build_updateData body = Inl r \<Longrightarrow> r = Uncaught \<or> (\<exists>msg. r = Json 400 (err msg))"
  by (auto simp add: build_updateData_def Let_def split: if_splits option.splits)

lemma task_updateMany_no_match:
  assumes "filter (\<lambda>x. task_id x = i \<and> authorId x = a) (tasks s) = []"
  shows "task_updateMany s i a d = None \<or> task_updateMany s i a d = Some (0, s)"
  using assms map_no_match [OF assms, of "apply_update d"]
  by (simp add: task_updateMany_def)

lemma task_deleteMany_no_match:
  assumes "filter (\<lambda>x. task_id x = i \<and> authorId x = a) (tasks s) = []"
  shows "task_deleteMany s i a = (0, s)"
  using assms filter_no_match [OF assms]
  by (simp add: task_deleteMany_def)

lemma put_task_no_match:
  assumes "filter (\<lambda>x. task_id x = i \<and> authorId x = a) (tasks s) = []"
    and "parseInt idparam = Some i"
  shows "put_task a idparam body s = (Uncaught, s) \<or>
         (\<exists>msg. put_task a idparam body s = (Json 400 (err msg), s)) \<or>
         put_task a idparam body s = (Json 500 (err ''Failed to update task.''), s) \<or>
         put_task a idparam body s = (Json 404 (err ''Task not found or unauthorized.''), s)"
proof (cases "nullish body")
  case True
  then show ?thesis by (simp add: put_task_def)
next
  case body: False
  show ?thesis
  proof (cases "build_updateData body")
    case (Inl r)
    with body assms(2) build_updateData_Inl [OF Inl] show ?thesis
      by (auto simp add: put_task_def)
  next
    case (Inr d)
    from task_updateMany_no_match [OF assms(1), of d] show ?thesis
    proof
      assume "task_updateMany s i a d = None"
      with body assms(2) Inr show ?thesis by (simp add: put_task_def)
    next
      assume "task_updateMany s i a d = Some (0, s)"
      with body assms(2) Inr show ?thesis by (simp add: put_task_def)
    qed
  qed
qed

lemma put_task_no_match_valid:
  assumes "filter (\<lambda>x. task_id x = i \<and> authorId x = a) (tasks s) = []"
    and "parseInt idparam = Some i"
    and "\<not> nullish body" and "build_updateData body = Inr d"
    and "task_updateMany s i a d \<noteq> None"
  shows "put_task a idparam body s = (Json 404 (err ''Task not found or unauthorized.''), s)"
  using task_updateMany_no_match [OF assms(1), of d] assms(2-5)
  by (simp add: put_task_def)

lemma delete_task_no_match:
  assumes "filter (\<lambda>x. task_id x = i \<and> authorId x = a) (tasks s) = []"
    and "parseInt idparam = Some i"
  shows "delete_task a idparam s = (Json 404 (err ''Task not found or unauthorized.''), s)"
  using task_deleteMany_no_match [OF assms(1)] assms(2)
  by (simp add: delete_task_def)


lemma task_updateMany_typed:
  "(\<forall>v. upd_isDone d = Some v \<longrightarrow> (\<exists>c. v = JBool c)) \<Longrightarrow> task_updateMany s i a d \<noteq> None"
  by (auto simp add: task_updateMany_def isDone_input_def split: option.splits)

lemma parseInt_3: "parseInt ''3'' = Some 3"
  by (simp add: parseInt_def is_ws_def is_digit_def digit_of_def digits_value_def)

text \<open>
  C1. Let a task belong to one user and let another user be authenticated. The list sent to
  the other user holds neither the task's object nor any object with its id. A PUT by the
  other user with the task's id replies 404 once the body is past the handler's checks and
  carries a boolean, if anything, for the completion flag; with any body whatever it never
  replies 200 and leaves the store as it was. A DELETE with the task's id replies 404 and
  leaves the store as it was.
\<close>

theorem tasks_isolated_between_users:
  assumes "distinct (map task_id (tasks s))"
    and "t \<in> set (tasks s)" and "authorId t \<noteq> b"
    and "parseInt idparam = Some (task_id t)"
  shows
    "(\<exists>items. get_tasks b s = (Json 200 (JArr items), s) \<and>
        mapPrismaToFlutter (Some (task_row t)) \<notin> set items \<and>
        (\<forall>item \<in> set items. get_field item ''id'' \<noteq> JNum (task_id t))) \<and>
     (\<forall>body d. \<not> nullish body \<longrightarrow> build_updateData body = Inr d \<longrightarrow>
        (\<forall>v. upd_isDone d = Some v \<longrightarrow> (\<exists>c. v = JBool c)) \<longrightarrow>
        put_task b idparam body s = (Json 404 (err ''Task not found or unauthorized.''), s)) \<and>
     (\<forall>body. snd (put_task b idparam body s) = s \<and>
        (\<forall>v. fst (put_task b idparam body s) \<noteq> Json 200 v)) \<and>
     delete_task b idparam s = (Json 404 (err ''Task not found or unauthorized.''), s)"
proof -
  have none: "filter (\<lambda>x. task_id x = task_id t \<and> authorId x = b) (tasks s) = []"
    using assms(1-3) by (rule no_row_of_other_author)
  have other: "task_id x \<noteq> task_id t" if "x \<in> set (task_findMany s b)" for x
  proof
    assume "task_id x = task_id t"
    moreover from that have "x \<in> set (tasks s)" and "authorId x = b"
      by (simp_all add: set_task_findMany)
    ultimately have "x \<in> set (filter (\<lambda>x. task_id x = task_id t \<and> authorId x = b) (tasks s))"
      by simp
    with none show False by simp
  qed
  let ?items = "map (\<lambda>x. mapPrismaToFlutter (Some (task_row x))) (task_findMany s b)"
  have "get_tasks b s = (Json 200 (JArr ?items), s)"
    by (simp add: get_tasks_def)
  moreover have "\<forall>item \<in> set ?items. get_field item ''id'' \<noteq> JNum (task_id t)"
    using other by (auto simp add: mapPrismaToFlutter_task_row)
  moreover from this have "mapPrismaToFlutter (Some (task_row t)) \<notin> set ?items"
    by (auto simp add: mapPrismaToFlutter_task_row)
  ultimately have get: "\<exists>items. get_tasks b s = (Json 200 (JArr items), s) \<and>
        mapPrismaToFlutter (Some (task_row t)) \<notin> set items \<and>
        (\<forall>item \<in> set items. get_field item ''id'' \<noteq> JNum (task_id t))"
    by blast
  have put_valid: "put_task b idparam body s = (Json 404 (err ''Task not found or unauthorized.''), s)"
    if "\<not> nullish body" and "build_updateData body = Inr d"
      and "\<forall>v. upd_isDone d = Some v \<longrightarrow> (\<exists>c. v = JBool c)" for body d
    using none assms(4) that(1,2) task_updateMany_typed [OF that(3)]
    by (rule put_task_no_match_valid)
  have put_any: "snd (put_task b idparam body s) = s \<and>
        (\<forall>v. fst (put_task b idparam body s) \<noteq> Json 200 v)" for body
    using put_task_no_match [OF none assms(4), of body] by (auto simp add: err_def)
  have del: "delete_task b idparam s = (Json 404 (err ''Task not found or unauthorized.''), s)"
    using none assms(4) by (rule delete_task_no_match)
  from get put_valid put_any del show ?thesis by blast
qed

theorem tasks_isolated_between_users_witness:
  "(\<exists>items. get_tasks 1 demo_db = (Json 200 (JArr items), demo_db) \<and>
      JObj [(''id'', JNum 3), (''title'', JStr ''pay rent''), (''authorId'', JNum 2),
            (''completed'', JBool False)] \<notin> set items) \<and>
   put_task 1 ''3'' (JObj [(''completed'', JBool True)]) demo_db =
     (Json 404 (err ''Task not found or unauthorized.''), demo_db) \<and>
   delete_task 1 ''3'' demo_db = (Json 404 (err ''Task not found or unauthorized.''), demo_db)"
proof -
  let ?t = "\<lparr>task_id = 3, title = ''pay rent'', isDone = False, authorId = 2\<rparr>"
  let ?body = "JObj [(''completed'', JBool True)]"
  have keys: "distinct (map task_id (tasks demo_db))"
    by (simp add: demo_db_def)
  have row: "?t \<in> set (tasks demo_db)"
    by (simp add: demo_db_def)
  have owner: "authorId ?t \<noteq> 1"
    by simp
  have ident: "parseInt ''3'' = Some (task_id ?t)"
    by (simp add: parseInt_3)
  have body: "\<not> nullish ?body"
    by simp
  have data: "build_updateData ?body = Inr \<lparr>upd_title = None, upd_isDone = Some (JBool True)\<rparr>"
    by (simp add: build_updateData_def)
  have typed: "\<forall>v. upd_isDone \<lparr>upd_title = None, upd_isDone = Some (JBool True)\<rparr> = Some v \<longrightarrow>
                 (\<exists>c. v = JBool c)"
    by auto
  have sent: "mapPrismaToFlutter (Some (task_row ?t)) =
                JObj [(''id'', JNum 3), (''title'', JStr ''pay rent''), (''authorId'', JNum 2),
                      (''completed'', JBool False)]"
    by (simp add: mapPrismaToFlutter_task_row)
  note main = tasks_isolated_between_users [OF keys row owner ident]
  from main have "\<exists>items. get_tasks 1 demo_db = (Json 200 (JArr items), demo_db) \<and>
      mapPrismaToFlutter (Some (task_row ?t)) \<notin> set items"
    by blast
  moreover from main body data typed have "put_task 1 ''3'' ?body demo_db =
      (Json 404 (err ''Task not found or unauthorized.''), demo_db)"
    by blast
  moreover from main have "delete_task 1 ''3'' demo_db =
      (Json 404 (err ''Task not found or unauthorized.''), demo_db)"
    by blast
  ultimately show ?thesis
    unfolding sent by blast
qed


text \<open>
  \<^verbatim>\<open>POST /api/tasks\<close> with a body that is an object: a title that is absent, null or
  a string blank after trimming gives 400 and the store as it was. A title that is a string
  not blank after trimming gives, for a user the store knows, 201 and one new task whose
  owner is the authenticated user and whose completion flag is false: nothing else of the
  body enters the result. Whatever the body, a task that was not in the store before has
  that owner and that flag.
\<close>

lemma post_task_object_body:
  "(\<not> nullish body \<longrightarrow> nullish (get_field body ''title'') \<longrightarrow>
      post_task uid body s = (Json 400 (err ''Task title is required.''), s)) \<and>
   (\<forall>n. get_field body ''title'' = JStr n \<longrightarrow> js_trim n = [] \<longrightarrow>
      post_task uid body s = (Json 400 (err ''Task title is required.''), s)) \<and>
   (\<forall>n. get_field body ''title'' = JStr n \<longrightarrow> js_trim n \<noteq> [] \<longrightarrow>
      uid \<in> user_id ` set (users s) \<longrightarrow>
      post_task uid body s =
        (Json 201
           (JObj [(''id'', JNum (task_seq s)), (''title'', JStr n), (''authorId'', JNum uid),
                  (''completed'', JBool False)]),
         s\<lparr>tasks := tasks s @
               [\<lparr>task_id = task_seq s, title = n, isDone = False, authorId = uid\<rparr>],
            task_seq := task_seq s + 1\<rparr>)) \<and>
   (\<forall>x \<in> set (tasks (snd (post_task uid body s))).
      x \<in> set (tasks s) \<or> (\<not> isDone x \<and> authorId x = uid))"
proof (intro conjI allI impI)
  assume "\<not> nullish body" and "nullish (get_field body ''title'')"
  then show "post_task uid body s = (Json 400 (err ''Task title is required.''), s)"
    by (cases "get_field body ''title''") (simp_all add: post_task_def)
next
  fix n
  assume "get_field body ''title'' = JStr n" and "js_trim n = []"
  moreover from this have "\<not> nullish body"
    by (cases body) auto
  ultimately show "post_task uid body s = (Json 400 (err ''Task title is required.''), s)"
    by (simp add: post_task_def)
next
  fix n
  assume "get_field body ''title'' = JStr n" and "js_trim n \<noteq> []"
    and "uid \<in> user_id ` set (users s)"
  moreover from this have "\<not> nullish body" and "n \<noteq> []"
    by (cases body; auto simp add: js_trim_def)+
  ultimately show "post_task uid body s =
        (Json 201
           (JObj [(''id'', JNum (task_seq s)), (''title'', JStr n), (''authorId'', JNum uid),
                  (''completed'', JBool False)]),
         s\<lparr>tasks := tasks s @
               [\<lparr>task_id = task_seq s, title = n, isDone = False, authorId = uid\<rparr>],
            task_seq := task_seq s + 1\<rparr>)"
    by (simp add: post_task_def task_create_def mapPrismaToFlutter_task_row Let_def)
next
  show "\<forall>x \<in> set (tasks (snd (post_task uid body s))).
      x \<in> set (tasks s) \<or> (\<not> isDone x \<and> authorId x = uid)"
    by (auto simp add: post_task_def task_create_def Let_def
        split: if_splits option.splits)
qed

lemma js_trim_blank: "js_trim ''  '' = []"
  by (simp add: js_trim_def is_ws_def)

lemma js_trim_walk: "js_trim ''walk dog'' \<noteq> []"
  by (simp add: js_trim_def is_ws_def)

lemma post_task_object_body_example:
  "post_task 2 (JObj []) demo_db = (Json 400 (err ''Task title is required.''), demo_db) \<and>
   post_task 2 (JObj [(''title'', JStr ''  '')]) demo_db =
     (Json 400 (err ''Task title is required.''), demo_db) \<and>
   post_task 2
     (JObj [(''title'', JStr ''walk dog''), (''owner'', JNum 1), (''authorId'', JNum 1),
            (''completed'', JBool True), (''isDone'', JBool True)]) demo_db =
     (Json 201
        (JObj [(''id'', JNum 4), (''title'', JStr ''walk dog''), (''authorId'', JNum 2),
               (''completed'', JBool False)]),
      demo_db\<lparr>tasks := tasks demo_db @
                  [\<lparr>task_id = 4, title = ''walk dog'', isDone = False, authorId = 2\<rparr>],
               task_seq := 5\<rparr>)"
proof -
  let ?body = "JObj [(''title'', JStr ''walk dog''), (''owner'', JNum 1), (''authorId'', JNum 1),
                     (''completed'', JBool True), (''isDone'', JBool True)]"
  have known: "2 \<in> user_id ` set (users demo_db)"
    by (simp add: demo_db_def)
  have next_id: "task_seq demo_db = 4"
    by (simp add: demo_db_def)
  show ?thesis
    using post_task_object_body [of "JObj []" 2 demo_db]
      post_task_object_body [of "JObj [(''title'', JStr ''  '')]" 2 demo_db]
      post_task_object_body [of ?body 2 demo_db]
      js_trim_blank js_trim_walk known next_id
    by simp
qed

text \<open>
  C7 does not hold of the handler for a request without a body. Such a request has no
  title, and the claim asks for 400; but with \<^verbatim>\<open>req.body\<close> undefined the destructuring at
  line 205, which comes before the \<^verbatim>\<open>try\<close> of line 211, throws, and the handler sends no
  reply at all. The handlers for registration and login test \<^verbatim>\<open>!req.body\<close> first, lines 81
  and 128, and reply 400 to the same request.
\<close>

theorem post_task_without_body_throws:
  "post_task uid JUndefined s = (Uncaught, s) \<and>
   register L secret now salt JUndefined s =
     (Json 400 (err ''Request body missing or invalid JSON format.''), s) \<and>
   login L secret now JUndefined s =
     (Json 400 (err ''Request body missing or invalid JSON format.''), s)"
  by (simp add: post_task_def register_def login_def)

theorem post_task_without_body_throws_witness:
  "post_task 1 JUndefined demo_db = (Uncaught, demo_db) \<and>
   register ref_libs ''k'' 0 ''s3'' JUndefined demo_db =
     (Json 400 (err ''Request body missing or invalid JSON format.''), demo_db) \<and>
   login ref_libs ''k'' 0 JUndefined demo_db =
     (Json 400 (err ''Request body missing or invalid JSON format.''), demo_db)"
  using post_task_without_body_throws [of 1 demo_db ref_libs "''k''" 0 "''s3''"]
  by simp

section \<open>Updating a task\<close>

lemma parseInt_1: "parseInt ''1'' = Some 1"
  by (simp add: parseInt_def is_ws_def is_digit_def digit_of_def digits_value_def)

text \<open>
  C8, as stated, fails: a body that supplies neither a title nor \<open>completed\<close> but supplies
  \<open>isDone\<close> is not rejected. For the owner of task 1 the reply is 200 and the task's flag is
  changed.
\<close>

theorem put_task_isDone_only_counterexample:
  "get_field (JObj [(''isDone'', JBool False)]) ''title'' = JUndefined \<and>
   get_field (JObj [(''isDone'', JBool False)]) ''completed'' = JUndefined \<and>
   parseInt ''1'' = Some 1 \<and>
   put_task 1 ''1'' (JObj [(''isDone'', JBool False)]) demo_db =
     (Json 200
        (JObj [(''id'', JNum 1), (''title'', JStr ''buy milk''), (''authorId'', JNum 1),
               (''completed'', JBool False)]),
      demo_db\<lparr>tasks :=
        [\<lparr>task_id = 1, title = ''buy milk'', isDone = False, authorId = 1\<rparr>,
         \<lparr>task_id = 2, title = ''call home'', isDone = False, authorId = 1\<rparr>,
         \<lparr>task_id = 3, title = ''pay rent'', isDone = False, authorId = 2\<rparr>]\<rparr>)"
  by (simp add: parseInt_1 put_task_def build_updateData_def task_updateMany_def
      task_findUnique_def apply_update_def isDone_input_def demo_db_def
      mapPrismaToFlutter_task_row)

text \<open>
  C8, amended. For a PUT with a valid id and a body that is an object: when \<open>title\<close>,
  \<open>completed\<close> and \<open>isDone\<close> are each absent or null the reply is 400, and when the title
  is a string blank after trimming the reply is 400; in both cases the store is as it was.
\<close>

theorem put_task_rejects_empty_or_blank:
  assumes "\<not> nullish body" and "parseInt idparam = Some taskId"
  shows
    "(nullish (get_field body ''title'') \<and> nullish (get_field body ''completed'') \<and>
      nullish (get_field body ''isDone'') \<longrightarrow>
        put_task uid idparam body s =
          (Json 400 (err ''Must provide title or completed status for update.''), s)) \<and>
     (\<forall>n. get_field body ''title'' = JStr n \<and> js_trim n = [] \<longrightarrow>
        put_task uid idparam body s = (Json 400 (err ''Task title cannot be empty.''), s))"
  using assms by (auto simp add: put_task_def build_updateData_def)

theorem put_task_rejects_empty_or_blank_witness:
  "put_task 1 ''1'' (JObj [(''title'', JNull)]) demo_db =
     (Json 400 (err ''Must provide title or completed status for update.''), demo_db) \<and>
   put_task 1 ''1'' (JObj [(''title'', JStr ''  ''), (''completed'', JBool True)]) demo_db =
     (Json 400 (err ''Task title cannot be empty.''), demo_db)"
proof -
  have obj: "\<not> nullish (JObj [(''title'', JNull)])"
    "\<not> nullish (JObj [(''title'', JStr ''  ''), (''completed'', JBool True)])"
    by simp_all
  show ?thesis
    using put_task_rejects_empty_or_blank [OF obj(1) parseInt_1, of 1 demo_db]
      put_task_rejects_empty_or_blank [OF obj(2) parseInt_1, of 1 demo_db]
      js_trim_blank
    by simp
qed


text \<open>An update by the task's owner.\<close>

lemma apply_update_keys [simp]:
  "task_id (apply_update d t) = task_id t" "authorId (apply_update d t) = authorId t"
  by (simp_all add: apply_update_def Let_def split: option.splits)

lemma find_after_update:
  assumes "distinct (map task_id ts)" and "t \<in> set ts"
    and "\<And>x. task_id (g x) = task_id x"
  shows "find (\<lambda>x. task_id x = task_id t) (map g ts) = Some (g t)"
  using assms(1,2)
proof (induction ts)
  case Nil
  then show ?case by simp
next
  case (Cons x ts)
  then show ?case
    using assms(3) by (cases "x = t") (auto simp add: image_iff)
qed

lemma distinct_ids_after_map:
  "distinct (map task_id ts) \<Longrightarrow> (\<And>x. task_id (g x) = task_id x) \<Longrightarrow>
   distinct (map task_id (map g ts))"
  by (simp add: comp_def)

lemma put_task_owned:
  assumes "distinct (map task_id (tasks s))" and "t \<in> set (tasks s)"
    and "authorId t = a" and "parseInt idparam = Some (task_id t)"
    and "\<not> nullish body" and "build_updateData body = Inr d"
    and "\<forall>v. upd_isDone d = Some v \<longrightarrow> (\<exists>c. v = JBool c)"
  shows "put_task a idparam body s =
           (Json 200 (mapPrismaToFlutter (Some (task_row (apply_update d t)))),
            s\<lparr>tasks := map (\<lambda>x. if task_id x = task_id t \<and> authorId x = a
                                 then apply_update d x else x) (tasks s)\<rparr>)"
proof -
  let ?g = "\<lambda>x. if task_id x = task_id t \<and> authorId x = a then apply_update d x else x"
  let ?s' = "s\<lparr>tasks := map ?g (tasks s)\<rparr>"
  have "t \<in> set (filter (\<lambda>x. task_id x = task_id t \<and> authorId x = a) (tasks s))"
    using assms(2,3) by simp
  then have matched: "length (filter (\<lambda>x. task_id x = task_id t \<and> authorId x = a) (tasks s)) \<noteq> 0"
    by (metis length_0_conv empty_iff list.set(1))
  have typed: "\<not> (case upd_isDone d of None \<Rightarrow> False | Some v \<Rightarrow> isDone_input v = None)"
    using assms(7) by (auto simp add: isDone_input_def split: option.splits)
  have upd: "task_updateMany s (task_id t) a d =
      Some (length (filter (\<lambda>x. task_id x = task_id t \<and> authorId x = a) (tasks s)), ?s')"
    using typed by (simp add: task_updateMany_def)
  have "find (\<lambda>x. task_id x = task_id t) (map ?g (tasks s)) = Some (?g t)"
    using assms(1,2) by (rule find_after_update) simp
  then have found: "task_findUnique ?s' (task_id t) = Some (apply_update d t)"
    using assms(3) by (simp add: task_findUnique_def)
  show ?thesis
    using assms(4-6) upd matched found by (simp add: put_task_def)
qed

text \<open>
  C10. For a PUT with a valid id whose body has no title and no \<open>completed\<close> (each absent
  or null) and an \<open>isDone\<close> that is neither: the \<^verbatim>\<open>updateData\<close> the handler builds
  holds exactly that \<open>isDone\<close> value, the reply is never 400, and when the value is a
  boolean and the id is that of a task of the authenticated user, the reply is 200 and the
  task's completion flag is that boolean.
\<close>

theorem put_task_isDone_fallback:
  assumes "parseInt idparam = Some taskId"
    and "nullish (get_field body ''title'')" and "nullish (get_field body ''completed'')"
    and "get_field body ''isDone'' = v" and "\<not> nullish v"
  shows
    "build_updateData body = Inr \<lparr>upd_title = None, upd_isDone = Some v\<rparr> \<and>
     (\<forall>x. fst (put_task uid idparam body s) \<noteq> Json 400 x) \<and>
     (\<forall>c t. v = JBool c \<longrightarrow> distinct (map task_id (tasks s)) \<longrightarrow> t \<in> set (tasks s) \<longrightarrow>
        task_id t = taskId \<longrightarrow> authorId t = uid \<longrightarrow>
        put_task uid idparam body s =
          (Json 200
             (JObj [(''id'', JNum taskId), (''title'', JStr (title t)), (''authorId'', JNum uid),
                    (''completed'', JBool c)]),
           s\<lparr>tasks := map (\<lambda>x. if task_id x = taskId \<and> authorId x = uid
                                then x\<lparr>isDone := c\<rparr> else x) (tasks s)\<rparr>))"
proof -
  let ?d = "\<lparr>upd_title = None, upd_isDone = Some v\<rparr>"
  have body: "\<not> nullish body"
    using assms(4,5) by (cases body) auto
  have data: "build_updateData body = Inr ?d"
    using assms(2-5) by (simp add: build_updateData_def)
  have "fst (put_task uid idparam body s) \<noteq> Json 400 x" for x
    using body assms(1) data
    by (auto simp add: put_task_def err_def split: option.splits)
  moreover have "put_task uid idparam body s =
          (Json 200
             (JObj [(''id'', JNum taskId), (''title'', JStr (title t)), (''authorId'', JNum uid),
                    (''completed'', JBool c)]),
           s\<lparr>tasks := map (\<lambda>x. if task_id x = taskId \<and> authorId x = uid
                                then x\<lparr>isDone := c\<rparr> else x) (tasks s)\<rparr>)"
    if "v = JBool c" and "distinct (map task_id (tasks s))" and "t \<in> set (tasks s)"
      and "task_id t = taskId" and "authorId t = uid" for c t
  proof -
    have "\<forall>w. upd_isDone ?d = Some w \<longrightarrow> (\<exists>c. w = JBool c)"
      using that(1) by simp
    from put_task_owned [OF that(2,3,5) _ body data this] assms(1) that(1,4,5)
    show ?thesis
      by (simp add: mapPrismaToFlutter_task_row apply_update_def isDone_input_def)
  qed
  ultimately show ?thesis
    using data by blast
qed


lemma parseInt_2: "parseInt ''2'' = Some 2"
  by (simp add: parseInt_def is_ws_def is_digit_def digit_of_def digits_value_def)

text \<open>The object \<^verbatim>\<open>{ set: true }\<close> is taken as the boolean would be.\<close>

lemma put_task_set_object_example:
  "put_task 1 ''2'' (JObj [(''isDone'', JObj [(''set'', JBool True)])]) demo_db =
     (Json 200
        (JObj [(''id'', JNum 2), (''title'', JStr ''call home''), (''authorId'', JNum 1),
               (''completed'', JBool True)]),
      demo_db\<lparr>tasks :=
        [\<lparr>task_id = 1, title = ''buy milk'', isDone = True, authorId = 1\<rparr>,
         \<lparr>task_id = 2, title = ''call home'', isDone = True, authorId = 1\<rparr>,
         \<lparr>task_id = 3, title = ''pay rent'', isDone = False, authorId = 2\<rparr>]\<rparr>)"
  by (simp add: parseInt_2 put_task_def build_updateData_def task_updateMany_def
      task_findUnique_def apply_update_def isDone_input_def demo_db_def
      mapPrismaToFlutter_task_row)

theorem put_task_isDone_fallback_witness:
  "put_task 1 ''2''
     (JObj [(''title'', JNull), (''completed'', JNull), (''isDone'', JBool True)]) demo_db =
     (Json 200
        (JObj [(''id'', JNum 2), (''title'', JStr ''call home''), (''authorId'', JNum 1),
               (''completed'', JBool True)]),
      demo_db\<lparr>tasks :=
        [\<lparr>task_id = 1, title = ''buy milk'', isDone = True, authorId = 1\<rparr>,
         \<lparr>task_id = 2, title = ''call home'', isDone = True, authorId = 1\<rparr>,
         \<lparr>task_id = 3, title = ''pay rent'', isDone = False, authorId = 2\<rparr>]\<rparr>) \<and>
   (\<forall>x. fst (put_task 1 ''2'' (JObj [(''isDone'', JStr ''yes'')]) demo_db) \<noteq> Json 400 x)"
proof -
  let ?body = "JObj [(''title'', JNull), (''completed'', JNull), (''isDone'', JBool True)]"
  let ?t = "\<lparr>task_id = 2, title = ''call home'', isDone = False, authorId = 1\<rparr>"
  have absent: "nullish (get_field ?body ''title'')" "nullish (get_field ?body ''completed'')"
    by simp_all
  have given: "get_field ?body ''isDone'' = JBool True" "\<not> nullish (JBool True)"
    by simp_all
  have keys: "distinct (map task_id (tasks demo_db))"
    by (simp add: demo_db_def)
  have row: "?t \<in> set (tasks demo_db)" "task_id ?t = 2" "authorId ?t = 1"
    by (simp_all add: demo_db_def)
  have after: "map (\<lambda>x. if task_id x = 2 \<and> authorId x = 1 then x\<lparr>isDone := True\<rparr> else x)
                 (tasks demo_db) =
        [\<lparr>task_id = 1, title = ''buy milk'', isDone = True, authorId = 1\<rparr>,
         \<lparr>task_id = 2, title = ''call home'', isDone = True, authorId = 1\<rparr>,
         \<lparr>task_id = 3, title = ''pay rent'', isDone = False, authorId = 2\<rparr>]"
    by (simp add: demo_db_def)
  have text_flag: "nullish (get_field (JObj [(''isDone'', JStr ''yes'')]) ''title'')"
    "nullish (get_field (JObj [(''isDone'', JStr ''yes'')]) ''completed'')"
    "get_field (JObj [(''isDone'', JStr ''yes'')]) ''isDone'' = JStr ''yes''"
    "\<not> nullish (JStr ''yes'')"
    by simp_all
  from put_task_isDone_fallback [OF parseInt_2 absent given, of 1 demo_db] keys row
  have "put_task 1 ''2'' ?body demo_db =
     (Json 200
        (JObj [(''id'', JNum 2), (''title'', JStr (title ?t)), (''authorId'', JNum 1),
               (''completed'', JBool True)]),
      demo_db\<lparr>tasks := map (\<lambda>x. if task_id x = 2 \<and> authorId x = 1 then x\<lparr>isDone := True\<rparr> else x)
                 (tasks demo_db)\<rparr>)"
    by blast
  moreover from put_task_isDone_fallback [OF parseInt_2 text_flag, of 1 demo_db]
  have "\<forall>x. fst (put_task 1 ''2'' (JObj [(''isDone'', JStr ''yes'')]) demo_db) \<noteq> Json 400 x"
    by blast
  ultimately show ?thesis
    unfolding after by simp
qed

text \<open>
  C9. The row sent to the client has \<open>completed\<close> with the value of the row's \<open>isDone\<close>,
  and no \<open>isDone\<close>. A task created for a user the store knows is sent back with
  \<open>completed\<close> false, and is stored incomplete. When the owner of a task updates it with
  \<open>completed\<close> set to a boolean (and a title that is absent, null or not blank), the row
  stored under the task's id has that boolean as \<open>isDone\<close>, the reply has it as
  \<open>completed\<close>, and so has the task's object in the list fetched afterwards.
\<close>

theorem completed_round_trip:
  "(\<forall>t. get_field (mapPrismaToFlutter (Some (task_row t))) ''completed'' = JBool (isDone t) \<and>
        get_field (mapPrismaToFlutter (Some (task_row t))) ''isDone'' = JUndefined) \<and>
   (\<forall>n. get_field body ''title'' = JStr n \<longrightarrow> js_trim n \<noteq> [] \<longrightarrow>
      uid \<in> user_id ` set (users s) \<longrightarrow>
      (\<exists>v s'. post_task uid body s = (Json 201 v, s') \<and>
         get_field v ''completed'' = JBool False \<and>
         (\<exists>t \<in> set (tasks s'). get_field v ''id'' = JNum (task_id t) \<and> \<not> isDone t))) \<and>
   (\<forall>t c idparam.
      distinct (map task_id (tasks s)) \<longrightarrow> t \<in> set (tasks s) \<longrightarrow> authorId t = uid \<longrightarrow>
      parseInt idparam = Some (task_id t) \<longrightarrow>
      get_field body ''completed'' = JBool c \<longrightarrow>
      (nullish (get_field body ''title'') \<or>
       (\<exists>n. get_field body ''title'' = JStr n \<and> js_trim n \<noteq> [])) \<longrightarrow>
      (\<exists>v s'. put_task uid idparam body s = (Json 200 v, s') \<and>
         get_field v ''id'' = JNum (task_id t) \<and> get_field v ''completed'' = JBool c \<and>
         (\<exists>t' \<in> set (tasks s'). task_id t' = task_id t \<and> isDone t' = c) \<and>
         (\<exists>items. get_tasks uid s' = (Json 200 (JArr items), s') \<and>
            (\<exists>item \<in> set items. get_field item ''id'' = JNum (task_id t)) \<and>
            (\<forall>item \<in> set items. get_field item ''id'' = JNum (task_id t) \<longrightarrow>
               get_field item ''completed'' = JBool c))))"
proof (intro conjI allI impI)
  fix t
  show "get_field (mapPrismaToFlutter (Some (task_row t))) ''completed'' = JBool (isDone t)"
    and "get_field (mapPrismaToFlutter (Some (task_row t))) ''isDone'' = JUndefined"
    by (simp_all add: mapPrismaToFlutter_task_row)
next
  fix n
  assume "get_field body ''title'' = JStr n" and "js_trim n \<noteq> []"
    and "uid \<in> user_id ` set (users s)"
  moreover from this have "\<not> nullish body" and "n \<noteq> []"
    by (cases body; auto simp add: js_trim_def)+
  ultimately have "post_task uid body s =
        (Json 201 (mapPrismaToFlutter (Some (task_row
            \<lparr>task_id = task_seq s, title = n, isDone = False, authorId = uid\<rparr>))),
         s\<lparr>tasks := tasks s @
               [\<lparr>task_id = task_seq s, title = n, isDone = False, authorId = uid\<rparr>],
            task_seq := task_seq s + 1\<rparr>)"
    by (simp add: post_task_def task_create_def Let_def)
  then show "\<exists>v s'. post_task uid body s = (Json 201 v, s') \<and>
         get_field v ''completed'' = JBool False \<and>
         (\<exists>t \<in> set (tasks s'). get_field v ''id'' = JNum (task_id t) \<and> \<not> isDone t)"
    by (simp add: mapPrismaToFlutter_task_row)
next
  fix t c idparam
  assume keys: "distinct (map task_id (tasks s))" and row: "t \<in> set (tasks s)"
    and owner: "authorId t = uid" and ident: "parseInt idparam = Some (task_id t)"
    and flag: "get_field body ''completed'' = JBool c"
    and ttl: "nullish (get_field body ''title'') \<or>
       (\<exists>n. get_field body ''title'' = JStr n \<and> js_trim n \<noteq> [])"
  have body: "\<not> nullish body"
    using flag by (cases body) auto
  from ttl flag obtain d where data: "build_updateData body = Inr d"
    and d: "upd_isDone d = Some (JBool c)"
    by (auto simp add: build_updateData_def)
  then have typed: "\<forall>v. upd_isDone d = Some v \<longrightarrow> (\<exists>c. v = JBool c)"
    by simp
  let ?g = "\<lambda>x. if task_id x = task_id t \<and> authorId x = uid then apply_update d x else x"
  let ?s' = "s\<lparr>tasks := map ?g (tasks s)\<rparr>"
  let ?t' = "apply_update d t"
  let ?v = "mapPrismaToFlutter (Some (task_row ?t'))"
  have put: "put_task uid idparam body s = (Json 200 ?v, ?s')"
    using keys row owner ident body data typed by (rule put_task_owned)
  have now_c: "isDone ?t' = c"
    using d by (simp add: apply_update_def isDone_input_def Let_def split: option.splits)
  have t'_in: "?t' \<in> set (tasks ?s')"
    using row owner by (auto simp add: image_iff intro!: bexI [of _ t])
  have "distinct (map task_id (map ?g (tasks s)))"
    using keys by (rule distinct_ids_after_map) simp
  then have keys': "distinct (map task_id (tasks ?s'))"
    by simp
  let ?items = "map (\<lambda>x. mapPrismaToFlutter (Some (task_row x))) (task_findMany ?s' uid)"
  have list: "get_tasks uid ?s' = (Json 200 (JArr ?items), ?s')"
    by (simp add: get_tasks_def)
  have "?t' \<in> set (task_findMany ?s' uid)"
    using t'_in owner by (simp add: set_task_findMany)
  then have present: "\<exists>item \<in> set ?items. get_field item ''id'' = JNum (task_id t)"
    by (auto simp add: mapPrismaToFlutter_task_row intro!: bexI [of _ ?t'])
  have only: "\<forall>item \<in> set ?items. get_field item ''id'' = JNum (task_id t) \<longrightarrow>
               get_field item ''completed'' = JBool c"
  proof
    fix item
    assume "item \<in> set ?items"
    then obtain x where x: "x \<in> set (tasks ?s')" "item = mapPrismaToFlutter (Some (task_row x))"
      by (auto simp add: set_task_findMany)
    show "get_field item ''id'' = JNum (task_id t) \<longrightarrow> get_field item ''completed'' = JBool c"
    proof
      assume "get_field item ''id'' = JNum (task_id t)"
      with x(2) have "task_id x = task_id ?t'"
        by (simp add: mapPrismaToFlutter_task_row)
      with keys' x(1) t'_in have "x = ?t'"
        by (meson distinct_map inj_onD)
      with x(2) now_c show "get_field item ''completed'' = JBool c"
        by (simp add: mapPrismaToFlutter_task_row)
    qed
  qed
  have "get_field ?v ''id'' = JNum (task_id t)" "get_field ?v ''completed'' = JBool c"
    using now_c by (simp_all add: mapPrismaToFlutter_task_row)
  moreover have "\<exists>t' \<in> set (tasks ?s'). task_id t' = task_id t \<and> isDone t' = c"
    using t'_in now_c by (intro bexI [of _ ?t']) simp_all
  ultimately show "\<exists>v s'. put_task uid idparam body s = (Json 200 v, s') \<and>
         get_field v ''id'' = JNum (task_id t) \<and> get_field v ''completed'' = JBool c \<and>
         (\<exists>t' \<in> set (tasks s'). task_id t' = task_id t \<and> isDone t' = c) \<and>
         (\<exists>items. get_tasks uid s' = (Json 200 (JArr items), s') \<and>
            (\<exists>item \<in> set items. get_field item ''id'' = JNum (task_id t)) \<and>
            (\<forall>item \<in> set items. get_field item ''id'' = JNum (task_id t) \<longrightarrow>
               get_field item ''completed'' = JBool c))"
    using put list present only by blast
qed


theorem completed_round_trip_witness:
  "(\<exists>v s'. post_task 1 (JObj [(''title'', JStr ''walk dog'')]) demo_db = (Json 201 v, s') \<and>
      get_field v ''completed'' = JBool False) \<and>
   (\<exists>v s'. put_task 1 ''2'' (JObj [(''completed'', JBool True)]) demo_db = (Json 200 v, s') \<and>
      get_field v ''id'' = JNum 2 \<and> get_field v ''completed'' = JBool True \<and>
      (\<exists>items. get_tasks 1 s' = (Json 200 (JArr items), s') \<and>
         (\<exists>item \<in> set items. get_field item ''id'' = JNum 2) \<and>
         (\<forall>item \<in> set items. get_field item ''id'' = JNum 2 \<longrightarrow>
            get_field item ''completed'' = JBool True))) \<and>
   (\<exists>v s'. put_task 1 ''1'' (JObj [(''completed'', JBool False)]) demo_db = (Json 200 v, s') \<and>
      get_field v ''id'' = JNum 1 \<and> get_field v ''completed'' = JBool False \<and>
      (\<exists>items. get_tasks 1 s' = (Json 200 (JArr items), s') \<and>
         (\<exists>item \<in> set items. get_field item ''id'' = JNum 1) \<and>
         (\<forall>item \<in> set items. get_field item ''id'' = JNum 1 \<longrightarrow>
            get_field item ''completed'' = JBool False)))"
proof -
  let ?t1 = "\<lparr>task_id = 1, title = ''buy milk'', isDone = True, authorId = 1\<rparr>"
  let ?t2 = "\<lparr>task_id = 2, title = ''call home'', isDone = False, authorId = 1\<rparr>"
  have known: "1 \<in> user_id ` set (users demo_db)"
    by (simp add: demo_db_def)
  have ttl: "get_field (JObj [(''title'', JStr ''walk dog'')]) ''title'' = JStr ''walk dog''"
    by simp
  have keys: "distinct (map task_id (tasks demo_db))"
    by (simp add: demo_db_def)
  have rows: "?t1 \<in> set (tasks demo_db)" "?t2 \<in> set (tasks demo_db)"
    by (simp_all add: demo_db_def)
  have owner: "authorId ?t1 = 1" "authorId ?t2 = 1"
    by simp_all
  have ident: "parseInt ''1'' = Some (task_id ?t1)" "parseInt ''2'' = Some (task_id ?t2)"
    by (simp_all add: parseInt_1 parseInt_2)
  have flags: "get_field (JObj [(''completed'', JBool True)]) ''completed'' = JBool True"
    "get_field (JObj [(''completed'', JBool False)]) ''completed'' = JBool False"
    by simp_all
  have no_title: "nullish (get_field (JObj [(''completed'', JBool True)]) ''title'')"
    "nullish (get_field (JObj [(''completed'', JBool False)]) ''title'')"
    by simp_all
  from completed_round_trip [of "JObj [(''title'', JStr ''walk dog'')]" 1 demo_db]
    ttl js_trim_walk known
  have "\<exists>v s'. post_task 1 (JObj [(''title'', JStr ''walk dog'')]) demo_db = (Json 201 v, s') \<and>
      get_field v ''completed'' = JBool False"
    by blast
  moreover
  from completed_round_trip [of "JObj [(''completed'', JBool True)]" 1 demo_db]
    keys rows(2) owner(2) ident(2) flags(1) no_title(1)
  have "\<exists>v s'. put_task 1 ''2'' (JObj [(''completed'', JBool True)]) demo_db = (Json 200 v, s') \<and>
      get_field v ''id'' = JNum (task_id ?t2) \<and> get_field v ''completed'' = JBool True \<and>
      (\<exists>items. get_tasks 1 s' = (Json 200 (JArr items), s') \<and>
         (\<exists>item \<in> set items. get_field item ''id'' = JNum (task_id ?t2)) \<and>
         (\<forall>item \<in> set items. get_field item ''id'' = JNum (task_id ?t2) \<longrightarrow>
            get_field item ''completed'' = JBool True))"
    by blast
  moreover
  from completed_round_trip [of "JObj [(''completed'', JBool False)]" 1 demo_db]
    keys rows(1) owner(1) ident(1) flags(2) no_title(2)
  have "\<exists>v s'. put_task 1 ''1'' (JObj [(''completed'', JBool False)]) demo_db = (Json 200 v, s') \<and>
      get_field v ''id'' = JNum (task_id ?t1) \<and> get_field v ''completed'' = JBool False \<and>
      (\<exists>items. get_tasks 1 s' = (Json 200 (JArr items), s') \<and>
         (\<exists>item \<in> set items. get_field item ''id'' = JNum (task_id ?t1)) \<and>
         (\<forall>item \<in> set items. get_field item ''id'' = JNum (task_id ?t1) \<longrightarrow>
            get_field item ''completed'' = JBool False))"
    by blast
  ultimately show ?thesis
    by simp
qed

section \<open>The store's guarantees hold in every state the handlers reach\<close>

text \<open>
  The theorems above that speak of a task by its id assume that task ids are unique. That
  is part of \<open>db_ok\<close>, which holds of the empty store and which every handler preserves.
\<close>

lemma db_ok_empty_db: "db_ok empty_db"
  by (simp add: db_ok_def empty_db_def)

lemma db_ok_demo_db: "db_ok demo_db"
  by (simp add: db_ok_def demo_db_def)

lemma db_ok_task_ids: "db_ok s \<Longrightarrow> distinct (map task_id (tasks s))"
  by (simp add: db_ok_def)

lemma user_create_db_ok:
  assumes "db_ok s" and "user_create s u e h = Some (n, s')"
  shows "db_ok s'"
  using assms
  by (auto simp add: db_ok_def user_create_def Let_def list_all_iff image_iff
      split: if_splits; force)

lemma task_create_db_ok:
  assumes "db_ok s" and "task_create s ttl a d = Some (n, s')"
  shows "db_ok s'"
  using assms
  by (auto simp add: db_ok_def task_create_def Let_def list_all_iff image_iff
      split: if_splits; force)

lemma task_updateMany_db_ok:
  assumes "db_ok s" and "task_updateMany s i a d = Some (n, s')"
  shows "db_ok s'"
proof -
  let ?g = "\<lambda>t. if task_id t = i \<and> authorId t = a then apply_update d t else t"
  from assms(2) have s': "s' = s\<lparr>tasks := map ?g (tasks s)\<rparr>"
    by (auto simp add: task_updateMany_def split: if_splits)
  have "distinct (map task_id (map ?g (tasks s)))"
    using assms(1) by (intro distinct_ids_after_map) (simp_all add: db_ok_def)
  moreover have "list_all (\<lambda>t. task_id t < task_seq s) (map ?g (tasks s))"
    using assms(1) by (auto simp add: db_ok_def list_all_iff)
  moreover have "list_all (\<lambda>t. authorId t \<in> user_id ` set (users s)) (map ?g (tasks s))"
    using assms(1) by (auto simp add: db_ok_def list_all_iff)
  ultimately show ?thesis
    using assms(1) by (simp add: s' db_ok_def)
qed

lemma task_deleteMany_db_ok:
  assumes "db_ok s" and "task_deleteMany s i a = (n, s')"
  shows "db_ok s'"
  using assms
  by (auto simp add: db_ok_def task_deleteMany_def list_all_iff distinct_map_filter)

lemma register_db_ok: "db_ok s \<Longrightarrow> db_ok (snd (register L secret now salt body s))"
  by (auto simp add: register_def Let_def split: option.splits prod.splits
      dest: user_create_db_ok)

lemma login_store: "snd (login L secret now body s) = s"
  by (simp add: login_def Let_def split: option.splits)

lemma task_handler_db_ok: "db_ok s \<Longrightarrow> db_ok (snd (task_handler rq uid s))"
proof (cases rq)
  case GET_tasks
  assume "db_ok s"
  with GET_tasks show ?thesis by (simp add: get_tasks_def)
next
  case (POST_tasks body)
  assume "db_ok s"
  with POST_tasks show ?thesis
    by (auto simp add: post_task_def Let_def split: option.splits prod.splits
        dest: task_create_db_ok)
next
  case (PUT_task idparam body)
  assume "db_ok s"
  with PUT_task show ?thesis
    by (auto simp add: put_task_def split: option.splits sum.splits prod.splits
        dest: task_updateMany_db_ok)
next
  case (DELETE_task idparam)
  assume "db_ok s"
  with DELETE_task show ?thesis
    by (auto simp add: delete_task_def split: option.splits prod.splits
        dest: task_deleteMany_db_ok)
qed

lemma api_tasks_db_ok:
  "db_ok s \<Longrightarrow> db_ok (snd (api_tasks L secret now authHeader rq s))"
  by (simp add: api_tasks_def task_handler_db_ok split: gate.splits)

section \<open>Properties of the earlier copy\<close>

text \<open>
  The earlier login fails as the later one does: one reply for an unknown email and for a
  wrong password.
\<close>

lemma legacy_login_failures:
  assumes "get_field body ''email'' = JStr e" and "e \<noteq> []"
    and "get_field body ''password'' = JStr p" and "p \<noteq> []"
    and "e \<notin> email ` set (users s) \<or>
         (\<exists>u. user_findUnique s e = Some u \<and> \<not> bcrypt_compare L p (passwordHash u))"
  shows "legacy_login L secret now body s = (Json 401 (err ''Invalid email or password.''), s)"
proof -
  have body: "\<not> nullish body"
    using assms(1) by (cases body) auto
  from assms(5) show ?thesis
  proof
    assume "e \<notin> email ` set (users s)"
    then have "user_findUnique s e = None"
      by (simp add: user_findUnique_None_iff)
    then show ?thesis
      using body assms(1-4) by (simp add: legacy_login_def)
  next
    assume "\<exists>u. user_findUnique s e = Some u \<and> \<not> bcrypt_compare L p (passwordHash u)"
    then show ?thesis
      using body assms(1-4) by (auto simp add: legacy_login_def)
  qed
qed

text \<open>
  The earlier list holds the same tasks as the later one, by id alone: a completed task
  comes before an incomplete one with a larger id.
\<close>

lemma legacy_findMany_rows:
  "mset (legacy_findMany s a) = filter_mset (\<lambda>t. authorId t = a) (mset (tasks s)) \<and>
   sorted (map task_id (legacy_findMany s a))"
  by (simp add: legacy_findMany_def sorted_sort_key)

lemma legacy_get_tasks_demo:
  "legacy_get_tasks 1 demo_db =
     (Json 200
        (JArr [JObj [(''id'', JNum 1), (''title'', JStr ''buy milk''),
                     (''completed'', JBool True), (''authorId'', JNum 1)],
               JObj [(''id'', JNum 2), (''title'', JStr ''call home''),
                     (''completed'', JBool False), (''authorId'', JNum 1)]]), demo_db)"
  by (simp add: legacy_get_tasks_def legacy_findMany_def legacy_task_row_def demo_db_def)

end
